theory Spec2Isabelle
  imports Complex_Main "HOL-Library.AList" "HOL-Library.Log_Nat"
begin

section \<open>Values shared by both pipeline stages\<close>

text \<open>
  Python exceptions that the modelled lines of the two \<open>run.py\<close> files can raise.
\<close>

datatype py_error =
    KeyError string
  | TypeError
  | ValueError
  | FileNotFoundError string
  | JSONDecodeError
  | NotFittedError
  | OverflowError
  | SystemExit

text \<open>
  A 64-bit float as pandas stores it: a finite number, one of the two infinities, or NaN.
  NaN is also how pandas marks a missing entry. Only comparisons are made on these values
  in the modelled code, and a comparison of floats is exact, so the finite values are
  taken as reals.
\<close>

datatype float64 = NaN | NegInf | Fin real | PosInf

text \<open>The IEEE comparison \<open>a <= b\<close>: false as soon as one side is NaN.\<close>

fun fle :: "float64 \<Rightarrow> float64 \<Rightarrow> bool" where
  "fle NaN b = False"
| "fle a NaN = False"
| "fle NegInf b = True"
| "fle a PosInf = True"
| "fle (Fin a) (Fin b) = (a \<le> b)"
| "fle a b = False"

text \<open>
  One entry of a data frame read by \<open>pd.read_csv\<close>: a number (possibly NaN, the missing
  entry) or a string.
\<close>

datatype cell = F float64 | S string

definition isna :: "cell \<Rightarrow> bool" where
  "isna c = (c = F NaN)"

text \<open>
  A data frame: the column names and the rows, each row holding one cell per column.
\<close>

record frame =
  columns :: "string list"
  rows :: "cell list list"

fun index_of :: "'a \<Rightarrow> 'a list \<Rightarrow> nat option" where
  "index_of x [] = None"
| "index_of x (y # ys) =
     (if x = y then Some 0 else (case index_of x ys of None \<Rightarrow> None | Some i \<Rightarrow> Some (Suc i)))"

text \<open>The cell of a row at a position; a row shorter than the header reads as missing.\<close>

definition cell_at :: "cell list \<Rightarrow> nat \<Rightarrow> cell" where
  "cell_at r i = (if i < length r then r ! i else F NaN)"

text \<open>\<open>df[name]\<close>: the column as a series, or \<open>KeyError\<close> when no column has that name.\<close>

definition getitem :: "frame \<Rightarrow> string \<Rightarrow> py_error + cell list" where
  "getitem df name =
     (case index_of name (columns df) of
        None \<Rightarrow> Inl (KeyError name)
      | Some i \<Rightarrow> Inr (map (\<lambda>r. cell_at r i) (rows df)))"

text \<open>
  \<open>series >= bound\<close> and \<open>series <= bound\<close>, element by element. A string entry cannot
  be compared with a float: the comparison raises \<open>TypeError\<close>.
\<close>

fun series_ge :: "cell list \<Rightarrow> float64 \<Rightarrow> py_error + bool list" where
  "series_ge [] b = Inr []"
| "series_ge (S s # cs) b = Inl TypeError"
| "series_ge (F x # cs) b =
     (case series_ge cs b of Inl e \<Rightarrow> Inl e | Inr m \<Rightarrow> Inr (fle b x # m))"

fun series_le :: "cell list \<Rightarrow> float64 \<Rightarrow> py_error + bool list" where
  "series_le [] b = Inr []"
| "series_le (S s # cs) b = Inl TypeError"
| "series_le (F x # cs) b =
     (case series_le cs b of Inl e \<Rightarrow> Inl e | Inr m \<Rightarrow> Inr (fle x b # m))"

text \<open>The element-wise \<open>&\<close> of two boolean series.\<close>

definition mask_and :: "bool list \<Rightarrow> bool list \<Rightarrow> bool list" where
  "mask_and m1 m2 = map (\<lambda>(a, b). a \<and> b) (zip m1 m2)"

text \<open>\<open>Series.between(left, right)\<close>, both ends inclusive: \<open>(s >= left) & (s <= right)\<close>.\<close>

definition between :: "cell list \<Rightarrow> float64 \<Rightarrow> float64 \<Rightarrow> py_error + bool list" where
  "between s left right =
     (case series_ge s left of
        Inl e \<Rightarrow> Inl e
      | Inr m1 \<Rightarrow> (case series_le s right of
                     Inl e \<Rightarrow> Inl e
                   | Inr m2 \<Rightarrow> Inr (mask_and m1 m2)))"

text \<open>\<open>df[mask]\<close>: the rows at which the boolean mask is true, in their order.\<close>

definition select_rows :: "frame \<Rightarrow> bool list \<Rightarrow> frame" where
  "select_rows df m = df\<lparr>rows := map snd (filter fst (zip m (rows df)))\<rparr>"

text \<open>\<open>df.dropna()\<close>: the rows without a missing entry.\<close>

definition dropna :: "frame \<Rightarrow> frame" where
  "dropna df = df\<lparr>rows := filter (\<lambda>r. \<not> list_ex isna r) (rows df)\<rparr>"

section \<open>The cleaning stage\<close>

text \<open>
  Lines 39 to 48 of \<open>basic_cleaning/run.py\<close>, the part of \<open>go\<close> between reading the
  input frame and writing the result: the price filter, \<open>dropna\<close>, then the filter on the
  bounding box.
\<close>

definition go_clean :: "float64 \<Rightarrow> float64 \<Rightarrow> frame \<Rightarrow> py_error + frame" where
  "go_clean min_price max_price df =
     (case getitem df ''price'' of
        Inl e \<Rightarrow> Inl e
      | Inr price \<Rightarrow>
     (case between price min_price max_price of
        Inl e \<Rightarrow> Inl e
      | Inr m \<Rightarrow>
     (let df1 = select_rows df m;
          df2 = dropna df1
      in
     (case getitem df2 ''longitude'' of
        Inl e \<Rightarrow> Inl e
      | Inr lon \<Rightarrow>
     (case between lon (Fin (-74.25)) (Fin (-73.50)) of
        Inl e \<Rightarrow> Inl e
      | Inr mlon \<Rightarrow>
     (case getitem df2 ''latitude'' of
        Inl e \<Rightarrow> Inl e
      | Inr lat \<Rightarrow>
     (case between lat (Fin 40.5) (Fin 41.2) of
        Inl e \<Rightarrow> Inl e
      | Inr mlat \<Rightarrow> Inr (select_rows df2 (mask_and mlon mlat)))))))))"

text \<open>
  What the specification says of one row of a frame whose header is \<open>cs\<close>: the entry of
  the named column is a number within the inclusive bounds.
\<close>

definition in_range :: "string list \<Rightarrow> string \<Rightarrow> float64 \<Rightarrow> float64 \<Rightarrow> cell list \<Rightarrow> bool" where
  "in_range cs name lo hi r =
     (case index_of name cs of
        None \<Rightarrow> False
      | Some i \<Rightarrow> (case cell_at r i of F x \<Rightarrow> fle lo x \<and> fle x hi | S s \<Rightarrow> False))"

definition complete_row :: "cell list \<Rightarrow> bool" where
  "complete_row r = (\<not> list_ex isna r)"

definition in_box :: "string list \<Rightarrow> cell list \<Rightarrow> bool" where
  "in_box cs r =
     (in_range cs ''longitude'' (Fin (-74.25)) (Fin (-73.50)) r \<and>
      in_range cs ''latitude'' (Fin 40.5) (Fin 41.2) r)"

text \<open>The rows that the three filters of the specification keep, in their order.\<close>

definition cleaned_rows :: "float64 \<Rightarrow> float64 \<Rightarrow> frame \<Rightarrow> cell list list" where
  "cleaned_rows lo hi df =
     filter (in_box (columns df))
       (filter complete_row
          (filter (in_range (columns df) ''price'' lo hi) (rows df)))"

definition is_num :: "cell \<Rightarrow> bool" where
  "is_num c = (case c of F x \<Rightarrow> True | S s \<Rightarrow> False)"

definition cell_in :: "float64 \<Rightarrow> float64 \<Rightarrow> cell \<Rightarrow> bool" where
  "cell_in lo hi c = (case c of F x \<Rightarrow> fle lo x \<and> fle x hi | S s \<Rightarrow> False)"

definition numeric_at :: "string list \<Rightarrow> string \<Rightarrow> cell list \<Rightarrow> bool" where
  "numeric_at cs name r =
     (case index_of name cs of None \<Rightarrow> False | Some i \<Rightarrow> is_num (cell_at r i))"

section \<open>The training stage: the date feature\<close>

text \<open>
  A pandas timestamp is a count of nanoseconds since the epoch; \<open>NaT\<close>, the missing
  timestamp, is \<open>None\<close>. \<open>pd.to_datetime\<close> belongs to pandas: it is a parameter
  \<open>to_datetime\<close> of the model, which gives for one raw value the error it raises, \<open>NaT\<close>,
  or the timestamp.
\<close>

type_synonym timestamp = int

definition day_ns :: int where
  "day_ns = 86400000000000"

text \<open>\<open>Timedelta.days\<close>: the whole days of a difference of timestamps, rounded down.\<close>

definition days :: "int \<Rightarrow> int" where
  "days td = td div day_ns"

text \<open>\<open>column.apply(pd.to_datetime)\<close>: every value parsed, the first error raised.\<close>

fun sanitize :: "('v \<Rightarrow> py_error + timestamp option) \<Rightarrow> 'v list \<Rightarrow> py_error + timestamp option list" where
  "sanitize to_datetime [] = Inr []"
| "sanitize to_datetime (v # vs) =
     (case to_datetime v of
        Inl e \<Rightarrow> Inl e
      | Inr t \<Rightarrow> (case sanitize to_datetime vs of Inl e \<Rightarrow> Inl e | Inr ts \<Rightarrow> Inr (t # ts)))"

text \<open>\<open>d.max()\<close>: the latest timestamp, \<open>NaT\<close> entries skipped; \<open>NaT\<close> when none is left.\<close>

fun max_ts :: "timestamp option list \<Rightarrow> timestamp option" where
  "max_ts [] = None"
| "max_ts (None # ts) = max_ts ts"
| "max_ts (Some t # ts) = (case max_ts ts of None \<Rightarrow> Some t | Some m \<Rightarrow> Some (max t m))"

text \<open>The largest 64-bit integer: pandas keeps a difference of timestamps in one.\<close>

definition int64_max :: int where
  "int64_max = 9223372036854775807"

text \<open>
  \<open>(d.max() - d).dt.days\<close> on one column. The subtraction is made on 64-bit nanoseconds
  for the whole column and raises \<open>OverflowError\<close> when one difference does not fit; a
  difference with \<open>NaT\<close> is \<open>NaT\<close> and has no days.
\<close>

definition delta_col :: "timestamp option list \<Rightarrow> py_error + int option list" where
  "delta_col d =
     (case max_ts d of
        None \<Rightarrow> Inr (map (\<lambda>x. None) d)
      | Some m \<Rightarrow>
          if list_ex (\<lambda>x. case x of None \<Rightarrow> False | Some t \<Rightarrow> int64_max < m - t) d
          then Inl OverflowError
          else Inr (map (\<lambda>x. case x of None \<Rightarrow> None | Some t \<Rightarrow> Some (days (m - t))) d))"

fun delta_all :: "timestamp option list list \<Rightarrow> py_error + int option list list" where
  "delta_all [] = Inr []"
| "delta_all (d # ds) =
     (case delta_col d of
        Inl e \<Rightarrow> Inl e
      | Inr c \<Rightarrow> (case delta_all ds of Inl e \<Rightarrow> Inl e | Inr cs \<Rightarrow> Inr (c # cs)))"

fun sanitize_all :: "('v \<Rightarrow> py_error + timestamp option) \<Rightarrow> 'v list list \<Rightarrow> py_error + timestamp option list list" where
  "sanitize_all to_datetime [] = Inr []"
| "sanitize_all to_datetime (c # cs) =
     (case sanitize to_datetime c of
        Inl e \<Rightarrow> Inl e
      | Inr d \<Rightarrow> (case sanitize_all to_datetime cs of Inl e \<Rightarrow> Inl e | Inr ds \<Rightarrow> Inr (d # ds)))"

text \<open>
  \<open>delta_date_feature\<close> of \<open>train_random_forest/run.py\<close>. The two-dimensional array is
  given by its columns, as \<open>pd.DataFrame(dates)\<close> sees it; both \<open>apply\<close> calls work column
  by column.
\<close>

definition delta_date_feature :: "('v \<Rightarrow> py_error + timestamp option) \<Rightarrow> 'v list list \<Rightarrow> py_error + int option list list" where
  "delta_date_feature to_datetime dates =
     (case sanitize_all to_datetime dates of
        Inl e \<Rightarrow> Inl e
      | Inr date_sanitized \<Rightarrow> delta_all date_sanitized)"

text \<open>A timestamp that is a calendar date: midnight, no time of day.\<close>

definition is_date :: "timestamp \<Rightarrow> bool" where
  "is_date t = (t mod day_ns = 0)"

section \<open>The training stage: command line and configuration\<close>

datatype json =
    JNull
  | JBool bool
  | JInt int
  | JFloat real
  | JStr string
  | JArr "json list"
  | JObj "(string \<times> json) list"

text \<open>The options as given on the command line; \<open>None\<close> for an option left out.\<close>

record cli =
  cli_trainval_artifact :: "string option"
  cli_val_size :: "real option"
  cli_random_seed :: "int option"
  cli_stratify_by :: "string option"
  cli_rf_config :: "string option"
  cli_max_tfidf_features :: "int option"
  cli_output_artifact :: "string option"

record train_args =
  trainval_artifact :: "string option"
  val_size :: "real option"
  random_seed :: int
  stratify_by :: string
  rf_config :: string
  max_tfidf_features :: int
  output_artifact :: string

text \<open>
  The argument parser of \<open>train_random_forest/run.py\<close>: \<open>--output_artifact\<close> is required,
  the others fall back on their defaults (\<open>None\<close> where the parser names none).
\<close>

definition parse_args :: "cli \<Rightarrow> py_error + train_args" where
  "parse_args c =
     (case cli_output_artifact c of
        None \<Rightarrow> Inl SystemExit
      | Some out \<Rightarrow>
          Inr \<lparr>trainval_artifact = cli_trainval_artifact c,
               val_size = cli_val_size c,
               random_seed = (case cli_random_seed c of None \<Rightarrow> 42 | Some n \<Rightarrow> n),
               stratify_by = (case cli_stratify_by c of None \<Rightarrow> ''none'' | Some n \<Rightarrow> n),
               rf_config = (case cli_rf_config c of None \<Rightarrow> ''{}'' | Some n \<Rightarrow> n),
               max_tfidf_features = (case cli_max_tfidf_features c of None \<Rightarrow> 10 | Some n \<Rightarrow> n),
               output_artifact = out\<rparr>)"

text \<open>
  Lines 43 and 44 of \<open>go\<close>: \<open>open(args.rf_config)\<close> then \<open>json.load\<close>. The file system is
  a map from paths to file contents; the JSON parser is a parameter.
\<close>

definition load_rf_config ::
  "(string \<rightharpoonup> string) \<Rightarrow> (string \<Rightarrow> py_error + json) \<Rightarrow> train_args \<Rightarrow> py_error + json" where
  "load_rf_config fs json_loads args =
     (case fs (rf_config args) of
        None \<Rightarrow> Inl (FileNotFoundError (rf_config args))
      | Some text \<Rightarrow> json_loads text)"

text \<open>
  Line 48: \<open>rf_config['random_state'] = args.random_seed\<close>. On a dictionary the entry is
  replaced where it stands, or added at the end; any other JSON value does not take a
  string key.
\<close>

definition set_random_state :: "json \<Rightarrow> int \<Rightarrow> py_error + (string \<times> json) list" where
  "set_random_state cfg seed =
     (case cfg of
        JObj kv \<Rightarrow> Inr (AList.update ''random_state'' (JInt seed) kv)
      | _ \<Rightarrow> Inl TypeError)"

definition go_config ::
  "(string \<rightharpoonup> string) \<Rightarrow> (string \<Rightarrow> py_error + json) \<Rightarrow> train_args \<Rightarrow> py_error + (string \<times> json) list" where
  "go_config fs json_loads args =
     (case load_rf_config fs json_loads args of
        Inl e \<Rightarrow> Inl e
      | Inr cfg \<Rightarrow> set_random_state cfg (random_seed args))"

section \<open>The training stage: the split\<close>

definition drop_at :: "nat \<Rightarrow> 'a list \<Rightarrow> 'a list" where
  "drop_at i xs = take i xs @ drop (Suc i) xs"

text \<open>\<open>X.pop(name)\<close>: the column leaves the frame and is returned.\<close>

definition pop :: "frame \<Rightarrow> string \<Rightarrow> py_error + (frame \<times> cell list)" where
  "pop df name =
     (case index_of name (columns df) of
        None \<Rightarrow> Inl (KeyError name)
      | Some i \<Rightarrow>
          Inr (\<lparr>columns = drop_at i (columns df), rows = map (drop_at i) (rows df)\<rparr>,
               map (\<lambda>r. cell_at r i) (rows df)))"

text \<open>
  Lines 56 to 63 of \<open>go\<close>. \<open>train_test_split\<close> belongs to scikit-learn and is a parameter;
  its \<open>stratify\<close> argument is optional there (\<open>None\<close> asks for a split without strata).
\<close>

definition go_split ::
  "(frame \<Rightarrow> cell list \<Rightarrow> real option \<Rightarrow> cell list option \<Rightarrow> int \<Rightarrow> py_error + 'split) \<Rightarrow>
   train_args \<Rightarrow> frame \<Rightarrow> py_error + 'split" where
  "go_split train_test_split args df =
     (case pop df ''price'' of
        Inl e \<Rightarrow> Inl e
      | Inr (X, y) \<Rightarrow>
          (case getitem X (stratify_by args) of
             Inl e \<Rightarrow> Inl e
           | Inr strat \<Rightarrow>
               train_test_split X y (val_size args) (Some strat) (random_seed args)))"

section \<open>The training stage: 64-bit floats and their sums\<close>

text \<open>
  The importances of the regressor are a numpy array of 64-bit floats, and the program
  adds them with Python's \<open>sum\<close>. A finite double is a mantissa and an exponent,
  \<open>Dyadic m e\<close> standing for \<open>m * 2 ^ e\<close>; a double has a mantissa of at most 53 bits
  and an exponent of at least -1074, and its magnitude is below \<open>2 ^ 1024\<close>. The two
  zeros compare equal and are one value here. One number has several such pairs; the
  comparison \<open>feq\<close> and the value \<open>dval\<close> do not depend on the pair.
\<close>

datatype double = Dyadic int int | Inf_pos | Inf_neg | Not_a_number

text \<open>
  The double nearest to \<open>n * 2 ^ e\<close>, ties to the even mantissa, and an infinity from
  \<open>2 ^ 1024\<close> on: with more than 53 bits the lowest \<open>k\<close> bits are cut off and the
  mantissa is rounded by them. The exponent of a sum of doubles is at least -1074, so no
  result needs a coarser rounding than this.
\<close>

definition round_double :: "int \<Rightarrow> int \<Rightarrow> double" where
  "round_double n e =
     (let a = \<bar>n\<bar>;
          k = bitlen a - 53;
          q = (if k \<le> 0 then a else a div 2 ^ nat k);
          r = (if k \<le> 0 then 0 else a mod 2 ^ nat k);
          h = (if k \<le> 0 then 1 else 2 ^ nat (k - 1));
          q' = (if h < r \<or> (r = h \<and> odd q) then q + 1 else q);
          e' = (if k \<le> 0 then e else e + k)
      in if 0 < q' \<and> 1024 < bitlen q' + e' then (if n < 0 then Inf_neg else Inf_pos)
         else Dyadic (sgn n * q') e')"

text \<open>The addition of two doubles: the exact sum, rounded; NaN and the infinities as in IEEE 754.\<close>

fun fadd :: "double \<Rightarrow> double \<Rightarrow> double" where
  "fadd Not_a_number y = Not_a_number"
| "fadd x Not_a_number = Not_a_number"
| "fadd Inf_pos Inf_neg = Not_a_number"
| "fadd Inf_neg Inf_pos = Not_a_number"
| "fadd Inf_pos y = Inf_pos"
| "fadd Inf_neg y = Inf_neg"
| "fadd x Inf_pos = Inf_pos"
| "fadd x Inf_neg = Inf_neg"
| "fadd (Dyadic m1 e1) (Dyadic m2 e2) =
     (let e = min e1 e2
      in round_double (m1 * 2 ^ nat (e1 - e) + m2 * 2 ^ nat (e2 - e)) e)"

text \<open>Python's \<open>sum\<close>: from 0, the entries are added one after the other, left to right.\<close>

definition py_sum :: "double list \<Rightarrow> double" where
  "py_sum xs = foldl fadd (Dyadic 0 0) xs"






section \<open>The training stage: the inference pipeline\<close>

text \<open>
  The scikit-learn objects that \<open>get_inference_pipeline\<close> builds, as the constructor
  calls written in the source: the kind of each transformer and its arguments.
\<close>

datatype strategy = Most_frequent | Constant cell

datatype func = Delta_date_feature | Np_reshape int

datatype transformer =
    OrdinalEncoder
  | OneHotEncoder
  | SimpleImputer strategy
  | FunctionTransformer func
  | TfidfVectorizer bool int string
  | Pipeline "(string \<times> transformer) list"

datatype remainder = Drop | Passthrough

record column_transformer =
  transformers :: "(string \<times> transformer \<times> string list) list"
  remainder :: remainder

text \<open>
  The regressor: the keyword arguments it was constructed with and, once fitted, one
  importance per column of the matrix it was fitted on, a 64-bit float each.
\<close>

record regressor =
  kwargs :: "(string \<times> json) list"
  feature_importances :: "double list option"

record sk_pipe =
  preprocessor :: column_transformer
  random_forest :: regressor

definition RandomForestRegressor :: "(string \<times> json) list \<Rightarrow> regressor" where
  "RandomForestRegressor kw = \<lparr>kwargs = kw, feature_importances = None\<rparr>"

definition ordinal_categorical :: "string list" where
  "ordinal_categorical = [''room_type'']"

definition non_ordinal_categorical :: "string list" where
  "non_ordinal_categorical = [''neighbourhood_group'']"

definition zero_imputed :: "string list" where
  "zero_imputed =
     [''minimum_nights'', ''number_of_reviews'', ''reviews_per_month'',
      ''calculated_host_listings_count'', ''availability_365'', ''longitude'', ''latitude'']"

definition get_inference_pipeline :: "(string \<times> json) list \<Rightarrow> int \<Rightarrow> sk_pipe \<times> string list" where
  "get_inference_pipeline rf_cfg max_tfidf =
     (let ordinal_categorical_preproc = OrdinalEncoder;
          non_ordinal_categorical_preproc =
            Pipeline [(''imputer'', SimpleImputer Most_frequent), (''encoder'', OneHotEncoder)];
          zero_imputer = SimpleImputer (Constant (F (Fin 0)));
          date_imputer =
            Pipeline [(''imputer'', SimpleImputer (Constant (S ''2010-01-01''))),
                      (''transform'', FunctionTransformer Delta_date_feature)];
          reshape_to_1d = FunctionTransformer (Np_reshape (-1));
          name_tfidf =
            Pipeline [(''imputer'', SimpleImputer (Constant (S ''''))),
                      (''reshape'', reshape_to_1d),
                      (''tfidf'', TfidfVectorizer False max_tfidf ''english'')];
          preprocessor =
            \<lparr>transformers =
               [(''ordinal_cat'', ordinal_categorical_preproc, ordinal_categorical),
                (''non_ordinal_cat'', non_ordinal_categorical_preproc, non_ordinal_categorical),
                (''impute_zero'', zero_imputer, zero_imputed),
                (''transform_date'', date_imputer, [''last_review'']),
                (''transform_name'', name_tfidf, [''name''])],
             remainder = Drop\<rparr>;
          processed_features =
            ordinal_categorical @ non_ordinal_categorical @ zero_imputed @ [''last_review'', ''name''];
          random_forest = RandomForestRegressor rf_cfg
      in (\<lparr>preprocessor = preprocessor, random_forest = random_forest\<rparr>, processed_features))"

text \<open>
  How a \<open>ColumnTransformer\<close> of scikit-learn transforms a frame, from the library's
  documentation: each entry receives the columns named in its list and nothing else, a
  missing column is an error, the outputs are stacked side by side in the order of the
  entries, and the columns no entry names follow only when \<open>remainder\<close> is
  \<open>passthrough\<close>. A matrix is the list of its columns. What a fitted transformer does to
  the columns it receives is the parameter \<open>run\<close>.
\<close>

fun select_columns :: "frame \<Rightarrow> string list \<Rightarrow> py_error + cell list list" where
  "select_columns df [] = Inr []"
| "select_columns df (n # ns) =
     (case index_of n (columns df) of
        None \<Rightarrow> Inl ValueError
      | Some i \<Rightarrow>
          (case select_columns df ns of
             Inl e \<Rightarrow> Inl e
           | Inr cs \<Rightarrow> Inr (map (\<lambda>r. cell_at r i) (rows df) # cs)))"

fun run_transformers ::
  "(transformer \<Rightarrow> cell list list \<Rightarrow> py_error + cell list list) \<Rightarrow>
   (string \<times> transformer \<times> string list) list \<Rightarrow> frame \<Rightarrow> py_error + cell list list" where
  "run_transformers run [] df = Inr []"
| "run_transformers run ((name, t, cols) # ts) df =
     (case select_columns df cols of
        Inl e \<Rightarrow> Inl e
      | Inr sub \<Rightarrow>
          (case run t sub of
             Inl e \<Rightarrow> Inl e
           | Inr out \<Rightarrow>
               (case run_transformers run ts df of
                  Inl e \<Rightarrow> Inl e
                | Inr outs \<Rightarrow> Inr (out @ outs))))"

definition remaining_columns :: "column_transformer \<Rightarrow> frame \<Rightarrow> cell list list" where
  "remaining_columns ct df =
     map (\<lambda>i. map (\<lambda>r. cell_at r i) (rows df))
       (filter (\<lambda>i. columns df ! i \<notin> set (concat (map (\<lambda>(n, t, cols). cols) (transformers ct))))
          [0..<length (columns df)])"

definition ct_transform ::
  "(transformer \<Rightarrow> cell list list \<Rightarrow> py_error + cell list list) \<Rightarrow>
   column_transformer \<Rightarrow> frame \<Rightarrow> py_error + cell list list" where
  "ct_transform run ct df =
     (case run_transformers run (transformers ct) df of
        Inl e \<Rightarrow> Inl e
      | Inr outs \<Rightarrow>
          (case remainder ct of
             Drop \<Rightarrow> Inr outs
           | Passthrough \<Rightarrow> Inr (outs @ remaining_columns ct df)))"

section \<open>The training stage: the feature importance chart\<close>

text \<open>Python's slices \<open>xs[:k]\<close> and \<open>xs[k:]\<close>; a negative \<open>k\<close> counts from the end.\<close>

definition slice_to :: "'a list \<Rightarrow> int \<Rightarrow> 'a list" where
  "slice_to xs k = (if k < 0 then take (nat (int (length xs) + k)) xs else take (nat k) xs)"

definition slice_from :: "'a list \<Rightarrow> int \<Rightarrow> 'a list" where
  "slice_from xs k = (if k < 0 then drop (nat (int (length xs) + k)) xs else drop (nat k) xs)"

text \<open>
  What \<open>plot_feature_importance\<close> puts on the axes: the bars (positions and heights), the
  tick positions, the tick labels and their rotation. After \<open>set_xticks\<close> has fixed the
  ticks, \<open>set_xticklabels\<close> raises \<open>ValueError\<close> for a list of labels that is not empty
  and has not one label per tick.
\<close>

record bar_chart =
  bar_positions :: "nat list"
  bar_heights :: "double list"
  xticks :: "nat list"
  xticklabels :: "string list"
  rotation :: int

definition plot_feature_importance :: "sk_pipe \<Rightarrow> string list \<Rightarrow> py_error + bar_chart" where
  "plot_feature_importance pipe feat_names =
     (case feature_importances (random_forest pipe) of
        None \<Rightarrow> Inl NotFittedError
      | Some imps \<Rightarrow>
          (let feat_imp = slice_to imps (int (length feat_names) - 1);
               nlp_importance = py_sum (slice_from imps (int (length feat_names) - 1));
               feat_imp = feat_imp @ [nlp_importance]
           in if feat_names \<noteq> [] \<and> length feat_names \<noteq> length feat_imp
              then Inl ValueError
              else Inr \<lparr>bar_positions = [0..<length feat_imp],
                        bar_heights = feat_imp,
                        xticks = [0..<length feat_imp],
                        xticklabels = feat_names,
                        rotation = 90\<rparr>))"

text \<open>The five group names of the specification, in the order of the router.\<close>

definition group_names :: "string list" where
  "group_names =
     [''ordinal-categorical'', ''nominal-categorical'', ''zero-imputed-numeric'',
      ''date-derived'', ''text'']"

section \<open>Concrete inputs\<close>

text \<open>
  Five listings: one priced below the range, one north of the bounding box, one with a
  missing entry, and two that pass (the second on the edge of every bound).
\<close>

definition sample_listings :: frame where
  "sample_listings =
     \<lparr>columns = [''name'', ''price'', ''longitude'', ''latitude'', ''reviews_per_month''],
      rows =
        [[S ''a'', F (Fin 5), F (Fin (-73.9)), F (Fin 40.7), F (Fin 1)],
         [S ''b'', F (Fin 100), F (Fin (-73.9)), F (Fin 50), F (Fin 1)],
         [S ''c'', F (Fin 100), F (Fin (-73.9)), F (Fin 40.7), F NaN],
         [S ''d'', F (Fin 150), F (Fin (-73.9)), F (Fin 40.7), F (Fin 2)],
         [S ''e'', F (Fin 1000), F (Fin (-74.25)), F (Fin 41.2), F (Fin 0.5)]]\<rparr>"

definition sample_cleaned :: frame where
  "sample_cleaned =
     \<lparr>columns = [''name'', ''price'', ''longitude'', ''latitude'', ''reviews_per_month''],
      rows =
        [[S ''d'', F (Fin 150), F (Fin (-73.9)), F (Fin 40.7), F (Fin 2)],
         [S ''e'', F (Fin 1000), F (Fin (-74.25)), F (Fin 41.2), F (Fin 0.5)]]\<rparr>"

text \<open>
  A finite excerpt of \<open>pd.to_datetime\<close> on strings: five dates, among them the date
  that the imputer writes for a missing review and two dates more than 292 years apart,
  and one value with a time of day. A date is the number of its days since 1970-01-01.
\<close>

definition to_datetime_sample :: "string \<Rightarrow> py_error + timestamp option" where
  "to_datetime_sample s =
     (if s = ''2010-01-01'' then Inr (Some (14610 * day_ns))
      else if s = ''2019-07-08'' then Inr (Some (18085 * day_ns))
      else if s = ''2019-07-09'' then Inr (Some (18086 * day_ns))
      else if s = ''2019-07-08 12:00:00'' then Inr (Some (18085 * day_ns + 43200000000000))
      else if s = ''1700-01-01'' then Inr (Some (- 98615 * day_ns))
      else if s = ''2262-01-01'' then Inr (Some (106651 * day_ns))
      else Inl ValueError)"

definition sample_ts :: "string \<Rightarrow> timestamp" where
  "sample_ts s = (case to_datetime_sample s of Inr (Some t) \<Rightarrow> t | _ \<Rightarrow> 0)"

definition sample_sentinels :: "string list" where
  "sample_sentinels = [''2010-01-01'', ''2010-01-01'', ''2010-01-01'']"

definition sample_dates :: "string list" where
  "sample_dates = [''2010-01-01'', ''2019-07-09'', ''2019-07-08'']"


definition sample_far_dates :: "string list" where
  "sample_far_dates = [''1700-01-01'', ''2262-01-01'']"

text \<open>
  A configuration file with a seed of its own, a parser that knows its text and the
  text of the empty object, and a command line that names the file and leaves the seed,
  the stratification column and the vocabulary size at their defaults.
\<close>

definition sample_config_text :: string where
  "sample_config_text = ''{\"n_estimators\": 10, \"random_state\": 7}''"

definition sample_config :: "(string \<times> json) list" where
  "sample_config = [(''n_estimators'', JInt 10), (''random_state'', JInt 7)]"

definition json_loads_sample :: "string \<Rightarrow> py_error + json" where
  "json_loads_sample t =
     (if t = ''{}'' then Inr (JObj [])
      else if t = sample_config_text then Inr (JObj sample_config)
      else Inl JSONDecodeError)"

definition fs_sample :: "string \<rightharpoonup> string" where
  "fs_sample = [''rf_config.json'' \<mapsto> sample_config_text]"

definition sample_cli :: cli where
  "sample_cli =
     \<lparr>cli_trainval_artifact = Some ''trainval_data.csv:latest'',
      cli_val_size = Some 0.2,
      cli_random_seed = None,
      cli_stratify_by = None,
      cli_rf_config = Some ''rf_config.json'',
      cli_max_tfidf_features = None,
      cli_output_artifact = Some ''random_forest_export''\<rparr>"

definition sample_args :: train_args where
  "sample_args =
     \<lparr>trainval_artifact = Some ''trainval_data.csv:latest'',
      val_size = Some 0.2,
      random_seed = 42,
      stratify_by = ''none'',
      rf_config = ''rf_config.json'',
      max_tfidf_features = 10,
      output_artifact = ''random_forest_export''\<rparr>"

text \<open>The same command line without \<open>--rf_config\<close>.\<close>

definition default_cli :: cli where
  "default_cli = sample_cli\<lparr>cli_rf_config := None\<rparr>"

definition default_args :: train_args where
  "default_args = sample_args\<lparr>rf_config := ''{}''\<rparr>"

text \<open>A frame to split, and a command line that names its borough column for the strata.\<close>

definition sample_trainval :: frame where
  "sample_trainval =
     \<lparr>columns = [''neighbourhood_group'', ''price'', ''room_type''],
      rows =
        [[S ''Brooklyn'', F (Fin 100), S ''Private room''],
         [S ''Queens'', F (Fin 80), S ''Entire home/apt'']]\<rparr>"

definition stratified_cli :: cli where
  "stratified_cli = sample_cli\<lparr>cli_stratify_by := Some ''neighbourhood_group''\<rparr>"

definition stratified_args :: train_args where
  "stratified_args = sample_args\<lparr>stratify_by := ''neighbourhood_group''\<rparr>"

text \<open>A splitter that hands back what it was given, and refuses to split without strata.\<close>

definition tts_sample ::
  "frame \<Rightarrow> cell list \<Rightarrow> real option \<Rightarrow> cell list option \<Rightarrow> int
     \<Rightarrow> py_error + (frame \<times> cell list \<times> cell list)" where
  "tts_sample X y v s n = (case s of None \<Rightarrow> Inl ValueError | Some strat \<Rightarrow> Inr (X, y, strat))"

text \<open>
  A fitted pipeline: the importances stand for a matrix of 19 columns, one for the room
  type, five for the boroughs, seven numeric, one for the date and five for the words.
  They are sixty-fourths (8; 1, 1, 2, 2, 2; 4, 6, 6, 4, 6, 8, 6; 4; 1, 1, 1, 1, 0), so every
  sum of them is exact.
\<close>

definition fitted_with :: "sk_pipe \<Rightarrow> double list \<Rightarrow> sk_pipe" where
  "fitted_with pipe imps = pipe\<lparr>random_forest := (random_forest pipe)\<lparr>feature_importances := Some imps\<rparr>\<rparr>"

definition sample_importances :: "double list" where
  "sample_importances =
     [Dyadic 1 (-3),
      Dyadic 1 (-6), Dyadic 1 (-6), Dyadic 1 (-5), Dyadic 1 (-5), Dyadic 1 (-5),
      Dyadic 1 (-4), Dyadic 3 (-5), Dyadic 3 (-5), Dyadic 1 (-4), Dyadic 3 (-5), Dyadic 1 (-3),
      Dyadic 3 (-5),
      Dyadic 1 (-4),
      Dyadic 1 (-6), Dyadic 1 (-6), Dyadic 1 (-6), Dyadic 1 (-6), Dyadic 0 0]"

definition sample_fitted :: sk_pipe where
  "sample_fitted = fitted_with (fst (get_inference_pipeline sample_config 10)) sample_importances"

definition sample_chart :: bar_chart where
  "sample_chart =
     \<lparr>bar_positions = [0..<11],
      bar_heights =
        [Dyadic 1 (-3),
         Dyadic 1 (-6), Dyadic 1 (-6), Dyadic 1 (-5), Dyadic 1 (-5), Dyadic 1 (-5),
         Dyadic 1 (-4), Dyadic 3 (-5), Dyadic 3 (-5), Dyadic 1 (-4),
         Dyadic 28 (-6)],
      xticks = [0..<11],
      xticklabels =
        [''room_type'', ''neighbourhood_group'', ''minimum_nights'', ''number_of_reviews'',
         ''reviews_per_month'', ''calculated_host_listings_count'', ''availability_365'',
         ''longitude'', ''latitude'', ''last_review'', ''name''],
      rotation = 90\<rparr>"

text \<open>A list of 22 names, more than the 19 importances and one.\<close>

definition sample_long_names :: "string list" where
  "sample_long_names =
     snd (get_inference_pipeline sample_config 10) @ snd (get_inference_pipeline sample_config 10)"




text \<open>
  Two training frames that differ only in columns the router does not name, and a stand-in
  for the fitted transformers that hands its columns back.
\<close>

definition sample_train :: frame where
  "sample_train =
     \<lparr>columns =
        [''id'', ''name'', ''neighbourhood_group'', ''latitude'', ''longitude'', ''room_type'',
         ''minimum_nights'', ''number_of_reviews'', ''last_review'', ''reviews_per_month'',
         ''calculated_host_listings_count'', ''availability_365''],
      rows =
        [[F (Fin 1), S ''Loft'', S ''Brooklyn'', F (Fin 40.7), F (Fin (-73.9)), S ''Private room'',
          F (Fin 2), F (Fin 9), S ''2019-07-08'', F (Fin 0.5), F (Fin 1), F (Fin 365)]]\<rparr>"

definition sample_train_other :: frame where
  "sample_train_other =
     \<lparr>columns =
        [''host_name'', ''id'', ''name'', ''neighbourhood_group'', ''latitude'', ''longitude'',
         ''room_type'', ''minimum_nights'', ''number_of_reviews'', ''last_review'',
         ''reviews_per_month'', ''calculated_host_listings_count'', ''availability_365''],
      rows =
        [[S ''Ann'', F (Fin 7), S ''Loft'', S ''Brooklyn'', F (Fin 40.7), F (Fin (-73.9)),
          S ''Private room'', F (Fin 2), F (Fin 9), S ''2019-07-08'', F (Fin 0.5), F (Fin 1),
          F (Fin 365)]]\<rparr>"

definition run_sample :: "transformer \<Rightarrow> cell list list \<Rightarrow> py_error + cell list list" where
  "run_sample t sub = Inr sub"

definition sample_matrix :: "cell list list" where
  "sample_matrix =
     [[S ''Private room''], [S ''Brooklyn''], [F (Fin 2)], [F (Fin 9)], [F (Fin 0.5)],
      [F (Fin 1)], [F (Fin 365)], [F (Fin (-73.9))], [F (Fin 40.7)], [S ''2019-07-08''],
      [S ''Loft'']]"

section \<open>Properties of the cleaning stage\<close>

lemma series_ge_eq:
  "series_ge s b = (if list_all is_num s
     then Inr (map (\<lambda>c. case c of F x \<Rightarrow> fle b x | S t \<Rightarrow> False) s) else Inl TypeError)"
  by (induction s b rule: series_ge.induct) (simp_all add: is_num_def)

lemma series_le_eq:
  "series_le s b = (if list_all is_num s
     then Inr (map (\<lambda>c. case c of F x \<Rightarrow> fle x b | S t \<Rightarrow> False) s) else Inl TypeError)"
  by (induction s b rule: series_le.induct) (simp_all add: is_num_def)

lemma mask_and_map: "mask_and (map f xs) (map g xs) = map (\<lambda>x. f x \<and> g x) xs"
  by (induction xs) (simp_all add: mask_and_def)

lemma between_eq:
  "between s lo hi = (if list_all is_num s then Inr (map (cell_in lo hi) s) else Inl TypeError)"
proof -
  have eq: "map (\<lambda>c. (case c of F x \<Rightarrow> fle lo x | S t \<Rightarrow> False) \<and> (case c of F x \<Rightarrow> fle x hi | S t \<Rightarrow> False)) s
      = map (cell_in lo hi) s"
    by (rule map_cong) (auto simp: cell_in_def split: cell.splits)
  show ?thesis
    by (simp add: between_def series_ge_eq series_le_eq mask_and_map eq)
qed

lemma select_mask: "map snd (filter fst (zip (map P xs) xs)) = filter P xs"
  by (induction xs) simp_all

lemma select_rows_map: "select_rows df (map P (rows df)) = df\<lparr>rows := filter P (rows df)\<rparr>"
  by (simp add: select_rows_def select_mask)

lemma in_range_cell:
  "index_of name cs = Some i \<Longrightarrow> in_range cs name lo hi r = cell_in lo hi (cell_at r i)"
  by (simp add: in_range_def cell_in_def)

lemma between_column:
  assumes "index_of name (columns df) = Some i"
  shows "between (map (\<lambda>r. cell_at r i) (rows df)) lo hi =
    (if list_all (\<lambda>r. is_num (cell_at r i)) (rows df)
     then Inr (map (in_range (columns df) name lo hi) (rows df)) else Inl TypeError)"
  using assms by (simp add: between_eq list_all_iff in_range_cell cong: map_cong)

text \<open>
  One test of a column, followed by the rest of the function: when the whole returns a
  value, the mask was the row predicate of the specification, and the column exists.
\<close>

lemma column_test_Inr:
  assumes "(case getitem df name of
              Inl e \<Rightarrow> Inl e
            | Inr s \<Rightarrow> (case between s lo hi of Inl e \<Rightarrow> Inl e | Inr m \<Rightarrow> k m)) = Inr out"
  shows "k (map (in_range (columns df) name lo hi) (rows df)) = Inr out"
proof -
  obtain i where i: "index_of name (columns df) = Some i"
    using assms by (auto simp: getitem_def split: option.splits)
  have g: "getitem df name = Inr (map (\<lambda>r. cell_at r i) (rows df))"
    by (simp add: getitem_def i)
  show ?thesis
  proof (cases "list_all (\<lambda>r. is_num (cell_at r i)) (rows df)")
    case True
    then show ?thesis
      using assms by (simp add: g between_column[OF i])
  next
    case False
    then show ?thesis
      using assms by (simp add: g between_column[OF i])
  qed
qed

lemma index_of_mem: "x \<in> set xs \<Longrightarrow> \<exists>i. index_of x xs = Some i"
  by (induction xs) auto

lemma index_of_Some_mem: "index_of x xs = Some i \<Longrightarrow> x \<in> set xs"
  by (induction xs arbitrary: i) (auto split: if_splits option.splits)

lemma column_test_mem:
  assumes "(case getitem df name of
              Inl e \<Rightarrow> Inl e
            | Inr s \<Rightarrow> (case between s lo hi of Inl e \<Rightarrow> Inl e | Inr m \<Rightarrow> k m)) = Inr out"
  shows "name \<in> set (columns df)"
  using assms by (auto simp: getitem_def split: option.splits dest: index_of_Some_mem)

lemma column_test_eq:
  assumes "index_of name (columns df) = Some i"
    and "list_all (\<lambda>r. is_num (cell_at r i)) (rows df)"
  shows "(case getitem df name of
              Inl e \<Rightarrow> Inl e
            | Inr s \<Rightarrow> (case between s lo hi of Inl e \<Rightarrow> Inl e | Inr m \<Rightarrow> k m))
         = k (map (in_range (columns df) name lo hi) (rows df))"
  using assms by (simp add: getitem_def between_column[OF assms(1)])

lemma go_clean_Inr:
  assumes "go_clean lo hi df = Inr out"
  shows "columns out = columns df \<and> rows out = cleaned_rows lo hi df
    \<and> {''price'', ''longitude'', ''latitude''} \<subseteq> set (columns df)"
proof -
  let ?P = "in_range (columns df) ''price'' lo hi"
  let ?df2 = "dropna (select_rows df (map ?P (rows df)))"
  have c2: "columns ?df2 = columns df"
    by (simp add: dropna_def select_rows_def)
  have r2: "rows ?df2 = filter complete_row (filter ?P (rows df))"
    by (simp add: dropna_def select_rows_map complete_row_def)
  note s0 = assms[unfolded go_clean_def]
  have s1: "(case getitem ?df2 ''longitude'' of
        Inl e \<Rightarrow> Inl e
      | Inr lon \<Rightarrow>
     (case between lon (Fin (-74.25)) (Fin (-73.50)) of
        Inl e \<Rightarrow> Inl e
      | Inr mlon \<Rightarrow>
     (case getitem ?df2 ''latitude'' of
        Inl e \<Rightarrow> Inl e
      | Inr lat \<Rightarrow>
     (case between lat (Fin 40.5) (Fin 41.2) of
        Inl e \<Rightarrow> Inl e
      | Inr mlat \<Rightarrow> Inr (select_rows ?df2 (mask_and mlon mlat)))))) = Inr out"
    using column_test_Inr[OF s0] by (simp add: Let_def)
  have s2: "(case getitem ?df2 ''latitude'' of
        Inl e \<Rightarrow> Inl e
      | Inr lat \<Rightarrow>
     (case between lat (Fin 40.5) (Fin 41.2) of
        Inl e \<Rightarrow> Inl e
      | Inr mlat \<Rightarrow> Inr (select_rows ?df2
          (mask_and (map (in_range (columns ?df2) ''longitude'' (Fin (-74.25)) (Fin (-73.50))) (rows ?df2)) mlat))))
      = Inr out"
    using column_test_Inr[OF s1] .
  have out: "out = select_rows ?df2 (map (in_box (columns ?df2)) (rows ?df2))"
    using column_test_Inr[OF s2] unfolding mask_and_map in_box_def by (simp only: sum.inject)
  have out': "out = ?df2\<lparr>rows := filter (in_box (columns ?df2)) (rows ?df2)\<rparr>"
    using out by (simp only: select_rows_map)
  have mem: "''price'' \<in> set (columns df)" "''longitude'' \<in> set (columns ?df2)"
    "''latitude'' \<in> set (columns ?df2)"
    using column_test_mem[OF s0] column_test_mem[OF s1] column_test_mem[OF s2] by blast+
  have "columns out = columns df \<and> rows out = cleaned_rows lo hi df"
    unfolding out' cleaned_rows_def by (simp add: c2 r2)
  then show ?thesis
    using mem unfolding c2 by simp
qed

lemma numeric_at_index:
  "index_of name cs = Some i \<Longrightarrow> numeric_at cs name r = is_num (cell_at r i)"
  by (simp add: numeric_at_def)

lemma in_range_numeric: "in_range cs name lo hi r \<Longrightarrow> numeric_at cs name r"
  by (auto simp: in_range_def numeric_at_def is_num_def split: option.splits cell.splits)

text \<open>
  The filter returns a frame whenever the three columns exist and hold numbers (missing
  entries included) in every row.
\<close>

lemma go_clean_success:
  assumes p: "\<forall>r \<in> set (rows df). numeric_at (columns df) ''price'' r"
    and lon: "\<forall>r \<in> set (rows df). numeric_at (columns df) ''longitude'' r"
    and lat: "\<forall>r \<in> set (rows df). numeric_at (columns df) ''latitude'' r"
    and cols: "{''price'', ''longitude'', ''latitude''} \<subseteq> set (columns df)"
  shows "go_clean lo hi df = Inr (df\<lparr>rows := cleaned_rows lo hi df\<rparr>)"
proof -
  let ?P = "in_range (columns df) ''price'' lo hi"
  let ?df2 = "dropna (select_rows df (map ?P (rows df)))"
  have c2: "columns ?df2 = columns df"
    by (simp add: dropna_def select_rows_def)
  have r2: "rows ?df2 = filter complete_row (filter ?P (rows df))"
    by (simp add: dropna_def select_rows_map complete_row_def)
  obtain i where i: "index_of ''price'' (columns df) = Some i"
    using cols index_of_mem[of "''price''" "columns df"] by auto
  obtain j where j: "index_of ''longitude'' (columns ?df2) = Some j"
    using cols index_of_mem[of "''longitude''" "columns df"] c2 by auto
  obtain k where k: "index_of ''latitude'' (columns ?df2) = Some k"
    using cols index_of_mem[of "''latitude''" "columns df"] c2 by auto
  have ni: "list_all (\<lambda>r. is_num (cell_at r i)) (rows df)"
    using p i by (simp add: list_all_iff numeric_at_index)
  have nj: "list_all (\<lambda>r. is_num (cell_at r j)) (rows ?df2)"
    using lon j c2 r2 by (simp add: list_all_iff numeric_at_index)
  have nk: "list_all (\<lambda>r. is_num (cell_at r k)) (rows ?df2)"
    using lat k c2 r2 by (simp add: list_all_iff numeric_at_index)
  have "go_clean lo hi df = Inr (select_rows ?df2 (map (in_box (columns ?df2)) (rows ?df2)))"
    unfolding go_clean_def column_test_eq[OF i ni] Let_def
      column_test_eq[OF j nj] column_test_eq[OF k nk] mask_and_map in_box_def ..
  also have "select_rows ?df2 (map (in_box (columns ?df2)) (rows ?df2))
      = ?df2\<lparr>rows := filter (in_box (columns ?df2)) (rows ?df2)\<rparr>"
    by (simp only: select_rows_map)
  also have "\<dots> = df\<lparr>rows := cleaned_rows lo hi df\<rparr>"
    unfolding cleaned_rows_def c2 r2 by (simp add: dropna_def select_rows_def)
  finally show ?thesis .
qed

lemma filter_all: "\<forall>x \<in> set xs. P x \<Longrightarrow> filter P xs = xs"
  by (induction xs) auto

lemma sample_run: "go_clean (Fin 10) (Fin 1000) sample_listings = Inr sample_cleaned"
  by (simp add: go_clean_def sample_listings_def sample_cleaned_def getitem_def between_def
      mask_and_def select_rows_def dropna_def cell_at_def isna_def)

text \<open>
  C2. Whenever the filter of the cleaning stage returns a frame, for any bounds and any
  input frame: the header is unchanged; the rows are those of the input that pass, in
  this order, the price filter, the removal of rows with a missing entry, and the filter
  on the bounding box; and every row of the result has its price within the inclusive
  bounds, its longitude in [-74.25, -73.50], its latitude in [40.5, 41.2] and no missing
  entry in any column.
\<close>

theorem go_clean_output:
  assumes "go_clean lo hi df = Inr out"
  shows "columns out = columns df
    \<and> rows out =
        filter (in_box (columns df))
          (filter complete_row (filter (in_range (columns df) ''price'' lo hi) (rows df)))
    \<and> (\<forall>r \<in> set (rows out).
          in_range (columns out) ''price'' lo hi r
        \<and> in_range (columns out) ''longitude'' (Fin (-74.25)) (Fin (-73.50)) r
        \<and> in_range (columns out) ''latitude'' (Fin 40.5) (Fin 41.2) r
        \<and> (\<forall>c \<in> set r. \<not> isna c))"
proof -
  have c: "columns out = columns df" and r: "rows out = cleaned_rows lo hi df"
    using go_clean_Inr[OF assms] by simp_all
  have "\<forall>r \<in> set (rows out).
          in_range (columns out) ''price'' lo hi r
        \<and> in_box (columns out) r \<and> complete_row r"
    by (auto simp: r c cleaned_rows_def)
  then have "\<forall>r \<in> set (rows out).
          in_range (columns out) ''price'' lo hi r
        \<and> in_range (columns out) ''longitude'' (Fin (-74.25)) (Fin (-73.50)) r
        \<and> in_range (columns out) ''latitude'' (Fin 40.5) (Fin 41.2) r
        \<and> (\<forall>c \<in> set r. \<not> isna c)"
    unfolding in_box_def complete_row_def list_ex_iff by blast
  then show ?thesis
    using c r unfolding cleaned_rows_def by simp
qed

theorem go_clean_output_witness:
  "go_clean (Fin 10) (Fin 1000) sample_listings = Inr sample_cleaned
   \<and> length (rows sample_cleaned) = 2
   \<and> list_all
        (\<lambda>r. in_range (columns sample_cleaned) ''price'' (Fin 10) (Fin 1000) r
           \<and> in_range (columns sample_cleaned) ''longitude'' (Fin (-74.25)) (Fin (-73.50)) r
           \<and> in_range (columns sample_cleaned) ''latitude'' (Fin 40.5) (Fin 41.2) r
           \<and> list_all (\<lambda>c. \<not> isna c) r)
        (rows sample_cleaned)"
proof -
  have l: "length (rows sample_cleaned) = 2"
    by (simp add: sample_cleaned_def)
  show ?thesis
    unfolding list_all_iff
    using go_clean_output[OF sample_run] sample_run l by blast
qed

text \<open>
  C6. The filter of the cleaning stage is idempotent: applied with the same bounds to a
  frame it returned, it returns that frame unchanged.
\<close>

theorem go_clean_idempotent:
  assumes "go_clean lo hi df = Inr out"
  shows "go_clean lo hi out = Inr out"
proof -
  have c: "columns out = columns df" and r: "rows out = cleaned_rows lo hi df"
    and cols: "{''price'', ''longitude'', ''latitude''} \<subseteq> set (columns out)"
    using go_clean_Inr[OF assms] by simp_all
  have all: "\<forall>x \<in> set (rows out). in_range (columns out) ''price'' lo hi x \<and> complete_row x
      \<and> in_box (columns out) x"
    by (auto simp: r c cleaned_rows_def)
  have p: "\<forall>x \<in> set (rows out). numeric_at (columns out) ''price'' x"
    using all in_range_numeric by blast
  have lon: "\<forall>x \<in> set (rows out). numeric_at (columns out) ''longitude'' x"
    using all in_range_numeric unfolding in_box_def by blast
  have lat: "\<forall>x \<in> set (rows out). numeric_at (columns out) ''latitude'' x"
    using all in_range_numeric unfolding in_box_def by blast
  have "cleaned_rows lo hi out = rows out"
    unfolding cleaned_rows_def using all by (simp add: filter_all)
  then show ?thesis
    using go_clean_success[OF p lon lat cols, of lo hi] by simp
qed

theorem go_clean_idempotent_witness:
  "go_clean (Fin 10) (Fin 1000) sample_listings = Inr sample_cleaned
   \<and> go_clean (Fin 10) (Fin 1000) sample_cleaned = Inr sample_cleaned"
  using go_clean_idempotent[OF sample_run] sample_run by simp

section \<open>Properties of the date feature\<close>

lemma sanitize_parsed:
  assumes "\<forall>v \<in> set col. to_datetime v = Inr (Some (ts v))"
  shows "sanitize to_datetime col = Inr (map (\<lambda>v. Some (ts v)) col)"
  using assms by (induction col) simp_all

lemma max_ts_Some:
  "max_ts (map (\<lambda>v. Some (f v)) xs) = (if xs = [] then None else Some (Max (f ` set xs)))"
proof (induction xs)
  case Nil
  show ?case by simp
next
  case (Cons x xs)
  show ?case
  proof (cases "xs = []")
    case True
    then show ?thesis by simp
  next
    case False
    then have "Max (f ` set (x # xs)) = max (f x) (Max (f ` set xs))"
      by simp
    with Cons False show ?thesis by simp
  qed
qed

lemma delta_col_Some:
  "delta_col (map (\<lambda>v. Some (f v)) xs) =
     (if \<exists>v \<in> set xs. int64_max < Max (f ` set xs) - f v then Inl OverflowError
      else Inr (map (\<lambda>v. Some (days (Max (f ` set xs) - f v))) xs))"
proof (cases "xs = []")
  case True
  then show ?thesis by (simp add: delta_col_def)
next
  case False
  have "list_ex (\<lambda>x. case x of None \<Rightarrow> False | Some t \<Rightarrow> int64_max < Max (f ` set xs) - t)
          (map (\<lambda>v. Some (f v)) xs)
      = (\<exists>v \<in> set xs. int64_max < Max (f ` set xs) - f v)"
    by (simp add: list_ex_iff)
  then show ?thesis
    using False by (simp add: delta_col_def max_ts_Some)
qed

lemma delta_date_feature_parsed:
  assumes "\<forall>v \<in> set col. to_datetime v = Inr (Some (ts v))"
  shows "delta_date_feature to_datetime [col] =
     (if \<exists>v \<in> set col. int64_max < Max (ts ` set col) - ts v then Inl OverflowError
      else Inr [map (\<lambda>v. Some (days (Max (ts ` set col) - ts v))) col])"
  by (simp add: delta_date_feature_def sanitize_parsed[OF assms] delta_col_Some)

lemma delta_date_feature_in_span:
  assumes "\<forall>v \<in> set col. to_datetime v = Inr (Some (ts v))"
    and "\<forall>v \<in> set col. Max (ts ` set col) - ts v \<le> int64_max"
  shows "delta_date_feature to_datetime [col]
    = Inr [map (\<lambda>v. Some (days (Max (ts ` set col) - ts v))) col]"
proof -
  have "\<not> (\<exists>v \<in> set col. int64_max < Max (ts ` set col) - ts v)"
    using assms(2) by (auto simp: not_less)
  then show ?thesis
    by (simp only: delta_date_feature_parsed[OF assms(1)] if_False)
qed

lemma day_ns_pos: "0 < day_ns"
  by (simp add: day_ns_def)

lemma days_floor:
  "days td * day_ns \<le> td \<and> td < (days td + 1) * day_ns"
proof -
  define q where "q = td div day_ns"
  define r where "r = td mod day_ns"
  have td: "td = q * day_ns + r"
    by (simp add: q_def r_def)
  have r: "0 \<le> r" "r < day_ns"
    using day_ns_pos by (simp_all add: r_def)
  have "(q + 1) * day_ns = q * day_ns + day_ns"
    by (simp add: distrib_right)
  with td r have "q * day_ns \<le> td \<and> td < (q + 1) * day_ns"
    by linarith
  then show ?thesis
    by (simp add: days_def q_def)
qed

lemma days_nonneg: "0 \<le> td \<Longrightarrow> 0 \<le> days td"
  using day_ns_pos by (simp add: days_def pos_imp_zdiv_nonneg_iff)



lemma days_exact: "is_date a \<Longrightarrow> is_date b \<Longrightarrow> a + days (b - a) * day_ns = b"
proof -
  assume "is_date a" "is_date b"
  then have "(b - a) mod day_ns = 0"
    unfolding is_date_def by (simp add: mod_diff_eq[symmetric])
  then have "(b - a) div day_ns * day_ns = b - a"
    by (metis add.right_neutral div_mult_mod_eq)
  then show ?thesis by (simp add: days_def)
qed


lemma Max_is_date:
  assumes "xs \<noteq> []" "\<forall>v \<in> set xs. is_date (f v)"
  shows "is_date (Max (f ` set xs))"
proof -
  have "Max (f ` set xs) \<in> f ` set xs"
    using assms(1) by (intro Max_in) auto
  with assms(2) show ?thesis by auto
qed

lemma delta_entry:
  assumes i: "i < length col"
  shows "\<exists>d. map (\<lambda>v. Some (days (Max (ts ` set col) - ts v))) col ! i = Some d \<and> 0 \<le> d
        \<and> d * day_ns \<le> Max (ts ` set col) - ts (col ! i)
        \<and> Max (ts ` set col) - ts (col ! i) < (d + 1) * day_ns
        \<and> ((\<forall>v \<in> set col. is_date (ts v)) \<longrightarrow> ts (col ! i) + d * day_ns = Max (ts ` set col))"
proof -
  define M where "M = Max (ts ` set col)"
  define t where "t = ts (col ! i)"
  have mem: "col ! i \<in> set col" using i by simp
  then have ne: "col \<noteq> []" by auto
  have "t \<in> ts ` set col"
    using mem by (simp add: t_def)
  then have le: "t \<le> M"
    unfolding M_def by (intro Max_ge) simp_all
  have ex: "(\<forall>v \<in> set col. is_date (ts v)) \<longrightarrow> t + days (M - t) * day_ns = M"
  proof
    assume d: "\<forall>v \<in> set col. is_date (ts v)"
    have "is_date M" unfolding M_def by (rule Max_is_date[OF ne d])
    moreover have "is_date t" using d mem by (simp add: t_def)
    ultimately show "t + days (M - t) * day_ns = M" by (intro days_exact)
  qed
  have nn: "0 \<le> days (M - t)"
    using le by (intro days_nonneg) simp
  have "map (\<lambda>v. Some (days (M - ts v))) col ! i = Some (days (M - t))"
    using i by (simp add: t_def)
  then show ?thesis
    unfolding M_def[symmetric] t_def[symmetric]
    using nn days_floor[of "M - t"] ex by blast
qed

lemma delta_all_same:
  assumes "\<forall>v \<in> set col. ts v = ts (hd col)"
  shows "map (\<lambda>v. Some (days (Max (ts ` set col) - ts v))) col = replicate (length col) (Some 0)"
proof (cases "col = []")
  case True
  then show ?thesis by simp
next
  case False
  have "ts ` set col = {ts (hd col)}"
  proof
    show "ts ` set col \<subseteq> {ts (hd col)}" using assms by auto
    show "{ts (hd col)} \<subseteq> ts ` set col" using False by simp
  qed
  then have M: "Max (ts ` set col) = ts (hd col)" by simp
  have "map (\<lambda>v. Some (days (Max (ts ` set col) - ts v))) col = map (\<lambda>v. Some 0) col"
    unfolding M using assms by (intro map_cong) (simp_all add: days_def)
  then show ?thesis by (simp add: map_replicate_const)
qed

lemma sample_far_overflow:
  "delta_date_feature to_datetime_sample [sample_far_dates] = Inl OverflowError"
  by (simp add: delta_date_feature_def delta_col_def sample_far_dates_def to_datetime_sample_def
      int64_max_def day_ns_def)

lemma sample_dates_run:
  "delta_date_feature to_datetime_sample [sample_dates] = Inr [[Some 3476, Some 0, Some 1]]"
  by (simp add: delta_date_feature_def delta_col_def sample_dates_def to_datetime_sample_def
      int64_max_def day_ns_def days_def)


text \<open>
  C4, as the program behaves. For a single column whose values all parse to timestamps
  that lie within the range of a 64-bit count of nanoseconds of the latest one,
  \<open>delta_date_feature\<close> returns one entry per value, and the entry of a value is the
  number of whole days from that value to the latest value of the column: it is not
  negative, and the difference of the two timestamps lies between that many days and one
  day more. When the values are calendar dates the value plus that many days is exactly
  the latest date. When all values of the column are the same, as when every one is the
  imputed 2010-01-01, every entry is 0.
\<close>

theorem delta_date_feature_days:
  assumes "\<forall>v \<in> set col. to_datetime v = Inr (Some (ts v))"
    and "\<forall>v \<in> set col. Max (ts ` set col) - ts v \<le> int64_max"
  shows "\<exists>out. delta_date_feature to_datetime [col] = Inr [out]
    \<and> length out = length col
    \<and> (\<forall>i < length col. \<exists>d.
          out ! i = Some d \<and> 0 \<le> d
        \<and> d * day_ns \<le> Max (ts ` set col) - ts (col ! i)
        \<and> Max (ts ` set col) - ts (col ! i) < (d + 1) * day_ns
        \<and> ((\<forall>v \<in> set col. is_date (ts v)) \<longrightarrow> ts (col ! i) + d * day_ns = Max (ts ` set col)))
    \<and> ((\<forall>v \<in> set col. ts v = ts (hd col)) \<longrightarrow> out = replicate (length col) (Some 0))"
proof (intro exI conjI)
  show "delta_date_feature to_datetime [col]
      = Inr [map (\<lambda>v. Some (days (Max (ts ` set col) - ts v))) col]"
    by (rule delta_date_feature_in_span[OF assms])
  show "length (map (\<lambda>v. Some (days (Max (ts ` set col) - ts v))) col) = length col"
    by simp
  show "\<forall>i < length col. \<exists>d.
          map (\<lambda>v. Some (days (Max (ts ` set col) - ts v))) col ! i = Some d \<and> 0 \<le> d
        \<and> d * day_ns \<le> Max (ts ` set col) - ts (col ! i)
        \<and> Max (ts ` set col) - ts (col ! i) < (d + 1) * day_ns
        \<and> ((\<forall>v \<in> set col. is_date (ts v)) \<longrightarrow> ts (col ! i) + d * day_ns = Max (ts ` set col))"
    using delta_entry by blast
  show "(\<forall>v \<in> set col. ts v = ts (hd col)) \<longrightarrow>
      map (\<lambda>v. Some (days (Max (ts ` set col) - ts v))) col = replicate (length col) (Some 0)"
    using delta_all_same by blast
qed

theorem delta_date_feature_days_witness:
  "list_all (\<lambda>v. to_datetime_sample v = Inr (Some (sample_ts v))) sample_dates
   \<and> list_all (\<lambda>v. Max (sample_ts ` set sample_dates) - sample_ts v \<le> int64_max) sample_dates
   \<and> delta_date_feature to_datetime_sample [sample_dates] = Inr [[Some 3476, Some 0, Some 1]]
   \<and> (\<exists>a b c. delta_date_feature to_datetime_sample [sample_dates] = Inr [[Some a, Some b, Some c]]
        \<and> sample_ts ''2010-01-01'' + a * day_ns = sample_ts ''2019-07-09''
        \<and> sample_ts ''2019-07-09'' + b * day_ns = sample_ts ''2019-07-09''
        \<and> sample_ts ''2019-07-08'' + c * day_ns = sample_ts ''2019-07-09'')
   \<and> list_all (\<lambda>v. to_datetime_sample v = Inr (Some (sample_ts v))) sample_sentinels
   \<and> list_all (\<lambda>v. Max (sample_ts ` set sample_sentinels) - sample_ts v \<le> int64_max) sample_sentinels
   \<and> delta_date_feature to_datetime_sample [sample_sentinels] = Inr [[Some 0, Some 0, Some 0]]"
proof -
  have h: "\<forall>v \<in> set sample_dates. to_datetime_sample v = Inr (Some (sample_ts v))"
    by (simp add: sample_dates_def to_datetime_sample_def sample_ts_def)
  have M: "Max (sample_ts ` set sample_dates) = sample_ts ''2019-07-09''"
    by (simp add: sample_dates_def to_datetime_sample_def sample_ts_def day_ns_def)
  have s: "\<forall>v \<in> set sample_dates. Max (sample_ts ` set sample_dates) - sample_ts v \<le> int64_max"
    unfolding M
    by (simp add: sample_dates_def to_datetime_sample_def sample_ts_def day_ns_def int64_max_def)
  have d: "\<forall>v \<in> set sample_dates. is_date (sample_ts v)"
    by (simp add: sample_dates_def to_datetime_sample_def sample_ts_def is_date_def)
  obtain out where out: "delta_date_feature to_datetime_sample [sample_dates] = Inr [out]"
    and each: "\<forall>i < length sample_dates. \<exists>d.
          out ! i = Some d
        \<and> sample_ts (sample_dates ! i) + d * day_ns = Max (sample_ts ` set sample_dates)"
    using delta_date_feature_days[OF h s] d by blast
  have o: "out = [Some 3476, Some 0, Some 1]"
    using out by (simp add: sample_dates_run)
  have nth: "\<exists>a b c. delta_date_feature to_datetime_sample [sample_dates] = Inr [[Some a, Some b, Some c]]
        \<and> sample_ts ''2010-01-01'' + a * day_ns = sample_ts ''2019-07-09''
        \<and> sample_ts ''2019-07-09'' + b * day_ns = sample_ts ''2019-07-09''
        \<and> sample_ts ''2019-07-08'' + c * day_ns = sample_ts ''2019-07-09''"
  proof -
    have e0: "\<exists>d. out ! 0 = Some d \<and> sample_ts (sample_dates ! 0) + d * day_ns = sample_ts ''2019-07-09''"
      using each[rule_format, of 0] M by (simp add: sample_dates_def)
    have e1: "\<exists>d. out ! 1 = Some d \<and> sample_ts (sample_dates ! 1) + d * day_ns = sample_ts ''2019-07-09''"
      using each[rule_format, of 1] M by (simp add: sample_dates_def)
    have e2: "\<exists>d. out ! 2 = Some d \<and> sample_ts (sample_dates ! 2) + d * day_ns = sample_ts ''2019-07-09''"
      using each[rule_format, of 2] M by (simp add: sample_dates_def)
    show ?thesis
      using e0 e1 e2 sample_dates_run by (simp add: o sample_dates_def)
  qed
  have h': "\<forall>v \<in> set sample_sentinels. to_datetime_sample v = Inr (Some (sample_ts v))"
    by (simp add: sample_sentinels_def to_datetime_sample_def sample_ts_def)
  have s': "\<forall>v \<in> set sample_sentinels. Max (sample_ts ` set sample_sentinels) - sample_ts v \<le> int64_max"
    by (simp add: sample_sentinels_def int64_max_def)
  have same: "\<forall>v \<in> set sample_sentinels. sample_ts v = sample_ts (hd sample_sentinels)"
    by (simp add: sample_sentinels_def)
  have r: "replicate (length sample_sentinels) (Some (0::int)) = [Some 0, Some 0, Some 0]"
    by (simp add: sample_sentinels_def numeral_3_eq_3)
  obtain out' where "delta_date_feature to_datetime_sample [sample_sentinels] = Inr [out']"
    and "out' = replicate (length sample_sentinels) (Some 0)"
    using delta_date_feature_days[OF h' s'] same by blast
  then have z: "delta_date_feature to_datetime_sample [sample_sentinels] = Inr [[Some 0, Some 0, Some 0]]"
    using r by simp
  show ?thesis
    unfolding list_all_iff
    using h s sample_dates_run nth h' s' z by blast
qed

text \<open>
  The claim C4 as it is written fails on two parseable dates more than 292 years apart:
  their difference does not fit a 64-bit count of nanoseconds and the call raises.
\<close>

theorem delta_date_feature_days_counterexample:
  "to_datetime_sample ''1700-01-01'' = Inr (Some (- 98615 * day_ns))
   \<and> to_datetime_sample ''2262-01-01'' = Inr (Some (106651 * day_ns))
   \<and> delta_date_feature to_datetime_sample [[''1700-01-01'', ''2262-01-01'']] = Inl OverflowError"
  using sample_far_overflow by (simp add: to_datetime_sample_def sample_far_dates_def)




section \<open>Properties of the configuration and of the split\<close>

lemma parse_sample: "parse_args sample_cli = Inr sample_args"
  by (simp add: parse_args_def sample_cli_def sample_args_def)

lemma parse_default: "parse_args default_cli = Inr default_args"
  by (simp add: parse_args_def default_cli_def default_args_def sample_cli_def sample_args_def)

text \<open>
  C8. For every configuration object read from the file and every seed, the keyword
  arguments with which the regressor of the pipeline is constructed are the configuration
  with its \<open>random_state\<close> entry set to the seed of the command line: the seed replaces
  the one the configuration may hold, and every other entry is the configuration's.
\<close>

theorem rf_seed_overrides:
  assumes "load_rf_config fs json_loads args = Inr (JObj cfg)"
  shows "\<exists>kw. go_config fs json_loads args = Inr kw
    \<and> kwargs (random_forest (fst (get_inference_pipeline kw (max_tfidf_features args)))) = kw
    \<and> map_of kw = (map_of cfg)(''random_state'' \<mapsto> JInt (random_seed args))"
  using assms
  by (simp add: go_config_def set_random_state_def get_inference_pipeline_def
      RandomForestRegressor_def update_conv')

theorem rf_seed_overrides_witness:
  "load_rf_config fs_sample json_loads_sample sample_args = Inr (JObj sample_config)
   \<and> map_of sample_config ''random_state'' = Some (JInt 7)
   \<and> (\<exists>kw. go_config fs_sample json_loads_sample sample_args = Inr kw
        \<and> kwargs (random_forest (fst (get_inference_pipeline kw (max_tfidf_features sample_args)))) = kw
        \<and> map_of kw = (map_of sample_config)(''random_state'' \<mapsto> JInt (random_seed sample_args)))"
proof -
  have h: "load_rf_config fs_sample json_loads_sample sample_args = Inr (JObj sample_config)"
    by (simp add: load_rf_config_def fs_sample_def json_loads_sample_def sample_args_def
        sample_config_text_def)
  have s: "map_of sample_config ''random_state'' = Some (JInt 7)"
    by (simp add: sample_config_def)
  show ?thesis
    using h s rf_seed_overrides[OF h] by blast
qed

text \<open>
  C9, as the program behaves. When \<open>--rf_config\<close> is left out, the parser stores the
  text of an empty JSON object, and \<open>go\<close> opens a file of that name: unless the working
  directory holds such a file, the run stops with \<open>FileNotFoundError\<close> and no
  configuration reaches the regressor.
\<close>

theorem default_rf_config_not_found:
  assumes "parse_args c = Inr args" and "cli_rf_config c = None" and "fs ''{}'' = None"
  shows "go_config fs json_loads args = Inl (FileNotFoundError ''{}'')"
  using assms
  by (auto simp: parse_args_def go_config_def load_rf_config_def split: option.splits)

theorem default_rf_config_not_found_witness:
  "parse_args default_cli = Inr default_args \<and> cli_rf_config default_cli = None
   \<and> fs_sample ''{}'' = None
   \<and> go_config fs_sample json_loads_sample default_args = Inl (FileNotFoundError ''{}'')"
proof -
  have c: "cli_rf_config default_cli = None"
    by (simp add: default_cli_def)
  have f: "fs_sample ''{}'' = None"
    by (simp add: fs_sample_def)
  have "go_config fs_sample json_loads_sample default_args = Inl (FileNotFoundError ''{}'')"
    using default_rf_config_not_found[of default_cli default_args fs_sample json_loads_sample]
      parse_default c f by blast
  then show ?thesis
    using parse_default c f by blast
qed

lemma index_of_None: "x \<notin> set xs \<Longrightarrow> index_of x xs = None"
  by (induction xs) auto

lemma set_drop_at: "set (drop_at i xs) \<subseteq> set xs"
  unfolding drop_at_def using set_take_subset[of i xs] set_drop_subset[of "Suc i" xs] by auto

lemma parse_stratified: "parse_args stratified_cli = Inr stratified_args"
  by (simp add: parse_args_def stratified_cli_def stratified_args_def sample_cli_def sample_args_def)

text \<open>
  C10. The split of the training stage is always asked with strata, the column named by
  \<open>--stratify_by\<close>: when the frame without its price column has a column of that name,
  \<open>train_test_split\<close> is called on that frame and the prices with this column as
  \<open>stratify\<close>, and what the splitter would do without strata has no effect on the run.
  When the frame has no column of that name the run stops with \<open>KeyError\<close>; the default
  name is \<open>none\<close>, so with the default the run fails unless the frame has a column
  called \<open>none\<close>.
\<close>

theorem go_split_stratified:
  assumes "parse_args c = Inr args"
  shows "(\<forall>X y strat. pop df ''price'' = Inr (X, y) \<longrightarrow> getitem X (stratify_by args) = Inr strat \<longrightarrow>
          go_split tts args df = tts X y (val_size args) (Some strat) (random_seed args))
    \<and> go_split tts args df =
      go_split (\<lambda>X y v s n. case s of None \<Rightarrow> alt X y v n | Some strat \<Rightarrow> tts X y v (Some strat) n) args df
    \<and> (stratify_by args \<notin> set (columns df) \<longrightarrow>
         go_split tts args df =
           Inl (KeyError (if ''price'' \<in> set (columns df) then stratify_by args else ''price'')))
    \<and> (cli_stratify_by c = None \<longrightarrow> stratify_by args = ''none'')"
proof (intro conjI impI allI)
  fix X y strat
  assume "pop df ''price'' = Inr (X, y)" and "getitem X (stratify_by args) = Inr strat"
  then show "go_split tts args df = tts X y (val_size args) (Some strat) (random_seed args)"
    by (simp add: go_split_def)
next
  show "go_split tts args df =
      go_split (\<lambda>X y v s n. case s of None \<Rightarrow> alt X y v n | Some strat \<Rightarrow> tts X y v (Some strat) n) args df"
    by (simp add: go_split_def split: sum.splits prod.splits)
next
  assume n: "stratify_by args \<notin> set (columns df)"
  show "go_split tts args df =
      Inl (KeyError (if ''price'' \<in> set (columns df) then stratify_by args else ''price''))"
  proof (cases "index_of ''price'' (columns df)")
    case None
    then have "''price'' \<notin> set (columns df)"
      using index_of_mem[of "''price''" "columns df"] by auto
    with None show ?thesis
      by (simp add: go_split_def pop_def)
  next
    case (Some i)
    then have p: "''price'' \<in> set (columns df)"
      by (rule index_of_Some_mem)
    have "stratify_by args \<notin> set (drop_at i (columns df))"
      using n set_drop_at[of i "columns df"] by auto
    then have "index_of (stratify_by args) (drop_at i (columns df)) = None"
      by (rule index_of_None)
    with Some p show ?thesis
      by (simp add: go_split_def pop_def getitem_def)
  qed
next
  assume "cli_stratify_by c = None"
  with assms show "stratify_by args = ''none''"
    by (auto simp: parse_args_def split: option.splits)
qed

theorem go_split_stratified_witness:
  "parse_args stratified_cli = Inr stratified_args
   \<and> pop sample_trainval ''price'' =
       Inr (\<lparr>columns = [''neighbourhood_group'', ''room_type''],
             rows = [[S ''Brooklyn'', S ''Private room''], [S ''Queens'', S ''Entire home/apt'']]\<rparr>,
            [F (Fin 100), F (Fin 80)])
   \<and> getitem \<lparr>columns = [''neighbourhood_group'', ''room_type''],
               rows = [[S ''Brooklyn'', S ''Private room''], [S ''Queens'', S ''Entire home/apt'']]\<rparr>
         (stratify_by stratified_args) = Inr [S ''Brooklyn'', S ''Queens'']
   \<and> go_split tts_sample stratified_args sample_trainval =
       Inr (\<lparr>columns = [''neighbourhood_group'', ''room_type''],
             rows = [[S ''Brooklyn'', S ''Private room''], [S ''Queens'', S ''Entire home/apt'']]\<rparr>,
            [F (Fin 100), F (Fin 80)], [S ''Brooklyn'', S ''Queens''])
   \<and> parse_args sample_cli = Inr sample_args
   \<and> cli_stratify_by sample_cli = None
   \<and> stratify_by sample_args \<notin> set (columns sample_cleaned)
   \<and> go_split tts_sample sample_args sample_cleaned = Inl (KeyError ''none'')"
proof -
  let ?X = "\<lparr>columns = [''neighbourhood_group'', ''room_type''],
             rows = [[S ''Brooklyn'', S ''Private room''], [S ''Queens'', S ''Entire home/apt'']]\<rparr>"
  have pp: "pop sample_trainval ''price'' = Inr (?X, [F (Fin 100), F (Fin 80)])"
    by (simp add: pop_def sample_trainval_def drop_at_def cell_at_def)
  have g: "getitem ?X (stratify_by stratified_args) = Inr [S ''Brooklyn'', S ''Queens'']"
    by (simp add: getitem_def stratified_args_def cell_at_def)
  have "go_split tts_sample stratified_args sample_trainval =
      tts_sample ?X [F (Fin 100), F (Fin 80)] (val_size stratified_args)
        (Some [S ''Brooklyn'', S ''Queens'']) (random_seed stratified_args)"
    using go_split_stratified[OF parse_stratified, of sample_trainval tts_sample] pp g by blast
  then have pos: "go_split tts_sample stratified_args sample_trainval =
      Inr (?X, [F (Fin 100), F (Fin 80)], [S ''Brooklyn'', S ''Queens''])"
    by (simp add: tts_sample_def)
  have c: "cli_stratify_by sample_cli = None"
    by (simp add: sample_cli_def)
  have n: "stratify_by sample_args \<notin> set (columns sample_cleaned)"
    by (simp add: sample_args_def sample_cleaned_def)
  have p: "''price'' \<in> set (columns sample_cleaned)"
    by (simp add: sample_cleaned_def)
  have s: "stratify_by sample_args = ''none''"
    by (simp add: sample_args_def)
  have "go_split tts_sample sample_args sample_cleaned =
      Inl (KeyError (if ''price'' \<in> set (columns sample_cleaned) then stratify_by sample_args else ''price''))"
    using go_split_stratified[OF parse_sample, of sample_cleaned tts_sample] n by blast
  then have neg: "go_split tts_sample sample_args sample_cleaned = Inl (KeyError ''none'')"
    using p s by simp
  show ?thesis
    using parse_stratified pp g pos parse_sample c n neg by blast
qed

section \<open>Properties of the column router\<close>

lemma select_columns_cong:
  assumes "\<forall>n \<in> set ns. getitem df n = getitem df' n"
  shows "select_columns df ns = select_columns df' ns"
  using assms
proof (induction ns)
  case Nil
  show ?case by simp
next
  case (Cons n ns)
  have g: "getitem df n = getitem df' n" and rest: "select_columns df ns = select_columns df' ns"
    using Cons by simp_all
  show ?case
  proof (cases "index_of n (columns df)")
    case None
    then have "index_of n (columns df') = None"
      using g by (auto simp: getitem_def split: option.splits)
    with None show ?thesis by simp
  next
    case (Some i)
    then obtain j where j: "index_of n (columns df') = Some j"
      using g by (auto simp: getitem_def split: option.splits)
    have "map (\<lambda>r. cell_at r i) (rows df) = map (\<lambda>r. cell_at r j) (rows df')"
      using g Some j by (simp add: getitem_def)
    with Some j rest show ?thesis by (simp split: sum.splits)
  qed
qed

lemma select_columns_Inr:
  assumes "select_columns df ns = Inr sub"
  shows "length sub = length ns \<and> (\<forall>j < length ns. getitem df (ns ! j) = Inr (sub ! j))"
  using assms
proof (induction ns arbitrary: sub)
  case Nil
  then show ?case by simp
next
  case (Cons n ns)
  from Cons.prems obtain i cs where i: "index_of n (columns df) = Some i"
    and cs: "select_columns df ns = Inr cs"
    and sub: "sub = map (\<lambda>r. cell_at r i) (rows df) # cs"
    by (auto split: option.splits sum.splits)
  have ih: "length cs = length ns \<and> (\<forall>j < length ns. getitem df (ns ! j) = Inr (cs ! j))"
    by (rule Cons.IH[OF cs])
  have "getitem df ((n # ns) ! j) = Inr (sub ! j)" if "j < length (n # ns)" for j
  proof (cases j)
    case 0
    then show ?thesis by (simp add: sub getitem_def i)
  next
    case (Suc m)
    then show ?thesis using that ih by (simp add: sub)
  qed
  then show ?case using ih by (simp add: sub)
qed

lemma run_transformers_cong:
  assumes "\<forall>n \<in> set (concat (map (\<lambda>(n, t, cols). cols) ts)). getitem df n = getitem df' n"
  shows "run_transformers run ts df = run_transformers run ts df'"
  using assms
proof (induction ts)
  case Nil
  show ?case by simp
next
  case (Cons a ts)
  obtain name t cols where a: "a = (name, t, cols)"
    by (cases a) auto
  have "select_columns df cols = select_columns df' cols"
    using Cons.prems by (intro select_columns_cong) (simp add: a)
  moreover have "run_transformers run ts df = run_transformers run ts df'"
    using Cons.prems by (intro Cons.IH) simp
  ultimately show ?case by (simp add: a split: sum.splits)
qed

text \<open>
  A successful run of the entries: every entry was given the columns of its own list and
  produced its output, and the result is these outputs side by side in the order of the
  entries.
\<close>

lemma run_transformers_Inr:
  assumes "run_transformers run ts df = Inr out"
  shows "\<exists>outs. length outs = length ts \<and> out = concat outs
    \<and> (\<forall>i < length ts. \<exists>sub.
          select_columns df (snd (snd (ts ! i))) = Inr sub
        \<and> run (fst (snd (ts ! i))) sub = Inr (outs ! i))"
  using assms
proof (induction ts arbitrary: out)
  case Nil
  then show ?case by simp
next
  case (Cons a ts)
  obtain name t cols where a: "a = (name, t, cols)"
    by (cases a) auto
  from Cons.prems obtain sub o1 rest where sub: "select_columns df cols = Inr sub"
    and o1: "run t sub = Inr o1" and rest: "run_transformers run ts df = Inr rest"
    and out: "out = o1 @ rest"
    by (auto simp: a split: sum.splits)
  from Cons.IH[OF rest] obtain outs where outs: "length outs = length ts" "rest = concat outs"
    "\<forall>i < length ts. \<exists>sub.
          select_columns df (snd (snd (ts ! i))) = Inr sub
        \<and> run (fst (snd (ts ! i))) sub = Inr (outs ! i)"
    by blast
  have "\<exists>s. select_columns df (snd (snd ((a # ts) ! i))) = Inr s
        \<and> run (fst (snd ((a # ts) ! i))) s = Inr ((o1 # outs) ! i)"
    if "i < length (a # ts)" for i
  proof (cases i)
    case 0
    then show ?thesis using sub o1 by (simp add: a)
  next
    case (Suc m)
    then show ?thesis using that outs(3) by simp
  qed
  then show ?case
    using outs(1,2) out by (intro exI[of _ "o1 # outs"]) simp
qed

lemma router_entries:
  "map (\<lambda>(n, t, cols). (n, cols)) (transformers (preprocessor (fst (get_inference_pipeline cfg k)))) =
     [(''ordinal_cat'', [''room_type'']),
      (''non_ordinal_cat'', [''neighbourhood_group'']),
      (''impute_zero'',
        [''minimum_nights'', ''number_of_reviews'', ''reviews_per_month'',
         ''calculated_host_listings_count'', ''availability_365'', ''longitude'', ''latitude'']),
      (''transform_date'', [''last_review'']),
      (''transform_name'', [''name''])]"
  by (simp add: get_inference_pipeline_def ordinal_categorical_def non_ordinal_categorical_def
      zero_imputed_def)

lemma router_columns:
  "concat (map (\<lambda>(n, t, cols). cols) (transformers (preprocessor (fst (get_inference_pipeline cfg k)))))
     = snd (get_inference_pipeline cfg k)"
  by (simp add: get_inference_pipeline_def)

lemma processed_features_eq:
  "snd (get_inference_pipeline cfg k) =
     [''room_type'', ''neighbourhood_group'', ''minimum_nights'', ''number_of_reviews'',
      ''reviews_per_month'', ''calculated_host_listings_count'', ''availability_365'',
      ''longitude'', ''latitude'', ''last_review'', ''name'']"
  by (simp add: get_inference_pipeline_def ordinal_categorical_def non_ordinal_categorical_def
      zero_imputed_def)

lemma router_remainder:
  "remainder (preprocessor (fst (get_inference_pipeline cfg k))) = Drop"
  by (simp add: get_inference_pipeline_def)

lemma router_length:
  "length (transformers (preprocessor (fst (get_inference_pipeline cfg k)))) = 5"
  by (simp add: get_inference_pipeline_def)

text \<open>
  C3. The router built by \<open>get_inference_pipeline\<close> has exactly five entries, in the order
  ordinal categorical, nominal categorical, zero-imputed numeric, date, text, with the
  column lists of the specification, which share no column. Whenever it transforms a
  frame, each entry was given the columns of its own list and nothing else, and the
  result is the five outputs side by side in that order. The columns no entry names are
  dropped: two frames with the same eleven named columns are transformed alike.
\<close>

theorem column_router:
  "map (\<lambda>(n, t, cols). (n, cols)) (transformers (preprocessor (fst (get_inference_pipeline cfg k)))) =
     [(''ordinal_cat'', [''room_type'']),
      (''non_ordinal_cat'', [''neighbourhood_group'']),
      (''impute_zero'',
        [''minimum_nights'', ''number_of_reviews'', ''reviews_per_month'',
         ''calculated_host_listings_count'', ''availability_365'', ''longitude'', ''latitude'']),
      (''transform_date'', [''last_review'']),
      (''transform_name'', [''name''])]
   \<and> remainder (preprocessor (fst (get_inference_pipeline cfg k))) = Drop
   \<and> distinct (concat (map (\<lambda>(n, t, cols). cols)
        (transformers (preprocessor (fst (get_inference_pipeline cfg k))))))
   \<and> (ct_transform run (preprocessor (fst (get_inference_pipeline cfg k))) df = Inr out \<longrightarrow>
        (\<exists>outs. length outs = 5 \<and> out = concat outs
          \<and> (\<forall>i < 5. \<exists>sub.
                select_columns df
                  (snd (snd (transformers (preprocessor (fst (get_inference_pipeline cfg k))) ! i))) = Inr sub
              \<and> run (fst (snd (transformers (preprocessor (fst (get_inference_pipeline cfg k))) ! i))) sub
                  = Inr (outs ! i))))
   \<and> ((\<forall>n \<in> set (snd (get_inference_pipeline cfg k)). getitem df n = getitem df' n) \<longrightarrow>
        ct_transform run (preprocessor (fst (get_inference_pipeline cfg k))) df =
        ct_transform run (preprocessor (fst (get_inference_pipeline cfg k))) df')"
proof (intro conjI impI)
  let ?ct = "preprocessor (fst (get_inference_pipeline cfg k))"
  show "map (\<lambda>(n, t, cols). (n, cols)) (transformers ?ct) =
     [(''ordinal_cat'', [''room_type'']),
      (''non_ordinal_cat'', [''neighbourhood_group'']),
      (''impute_zero'',
        [''minimum_nights'', ''number_of_reviews'', ''reviews_per_month'',
         ''calculated_host_listings_count'', ''availability_365'', ''longitude'', ''latitude'']),
      (''transform_date'', [''last_review'']),
      (''transform_name'', [''name''])]"
    by (rule router_entries)
  show "remainder ?ct = Drop"
    by (rule router_remainder)
  show "distinct (concat (map (\<lambda>(n, t, cols). cols) (transformers ?ct)))"
    unfolding router_columns processed_features_eq by simp
  {
    assume t: "ct_transform run ?ct df = Inr out"
    have "run_transformers run (transformers ?ct) df = Inr out"
      using t by (simp add: ct_transform_def router_remainder split: sum.splits)
    from run_transformers_Inr[OF this]
    show "\<exists>outs. length outs = 5 \<and> out = concat outs
          \<and> (\<forall>i < 5. \<exists>sub.
                select_columns df (snd (snd (transformers ?ct ! i))) = Inr sub
              \<and> run (fst (snd (transformers ?ct ! i))) sub = Inr (outs ! i))"
      unfolding router_length .
  }
  {
    assume "\<forall>n \<in> set (snd (get_inference_pipeline cfg k)). getitem df n = getitem df' n"
    then have "run_transformers run (transformers ?ct) df = run_transformers run (transformers ?ct) df'"
      by (intro run_transformers_cong) (simp only: router_columns)
    then show "ct_transform run ?ct df = ct_transform run ?ct df'"
      by (simp add: ct_transform_def router_remainder split: sum.splits)
  }
qed


lemma sample_transform:
  "ct_transform run_sample (preprocessor (fst (get_inference_pipeline sample_config 10))) sample_train
     = Inr sample_matrix"
  by (simp add: ct_transform_def get_inference_pipeline_def ordinal_categorical_def
      non_ordinal_categorical_def zero_imputed_def run_sample_def sample_train_def
      sample_matrix_def cell_at_def)

lemma sample_agree:
  "\<forall>n \<in> set (snd (get_inference_pipeline sample_config 10)).
     getitem sample_train n = getitem sample_train_other n"
  unfolding processed_features_eq
  by (simp add: getitem_def sample_train_def sample_train_other_def cell_at_def)

theorem column_router_witness:
  "ct_transform run_sample (preprocessor (fst (get_inference_pipeline sample_config 10))) sample_train
     = Inr sample_matrix
   \<and> list_all (\<lambda>n. getitem sample_train n = getitem sample_train_other n)
        (snd (get_inference_pipeline sample_config 10))
   \<and> ct_transform run_sample (preprocessor (fst (get_inference_pipeline sample_config 10)))
        sample_train_other = Inr sample_matrix
   \<and> (\<exists>outs. length outs = 5 \<and> sample_matrix = concat outs)"
proof -
  note r = column_router[where cfg = sample_config and k = 10 and run = run_sample
      and df = sample_train and out = sample_matrix and df' = sample_train_other]
  have same: "ct_transform run_sample (preprocessor (fst (get_inference_pipeline sample_config 10)))
      sample_train_other = Inr sample_matrix"
    using r sample_agree sample_transform by simp
  have "\<exists>outs. length outs = 5 \<and> sample_matrix = concat outs"
    using r sample_transform by blast
  then show ?thesis
    unfolding list_all_iff
    using sample_transform sample_agree same by blast
qed

section \<open>Properties of the sums of 64-bit floats\<close>




















section \<open>Properties of the feature importance chart\<close>

lemma slice_append: "slice_to xs k @ slice_from xs k = xs"
  by (simp add: slice_to_def slice_from_def)

lemma slice_to_take:
  "0 < n \<Longrightarrow> slice_to xs (int n - 1) = take (n - 1) xs"
  by (simp add: slice_to_def nat_diff_distrib')


lemma plot_fitted:
  assumes "feature_importances (random_forest pipe) = Some imps"
  shows "plot_feature_importance pipe feat_names =
    (if feat_names \<noteq> [] \<and> length feat_names \<noteq> Suc (length (slice_to imps (int (length feat_names) - 1)))
     then Inl ValueError
     else Inr \<lparr>bar_positions = [0..<Suc (length (slice_to imps (int (length feat_names) - 1)))],
               bar_heights = slice_to imps (int (length feat_names) - 1)
                 @ [py_sum (slice_from imps (int (length feat_names) - 1))],
               xticks = [0..<Suc (length (slice_to imps (int (length feat_names) - 1)))],
               xticklabels = feat_names,
               rotation = 90\<rparr>)"
  using assms by (simp add: plot_feature_importance_def Let_def del: upt_Suc)

text \<open>With names, the ticks are as many as the names exactly when the importances suffice.\<close>

lemma ticks_match:
  assumes "feat_names \<noteq> []"
  shows "length feat_names = Suc (length (slice_to imps (int (length feat_names) - 1)))
    \<longleftrightarrow> length feat_names \<le> length imps + 1"
proof -
  have pos: "0 < length feat_names" using assms by simp
  then obtain m where m: "length feat_names = Suc m"
    by (cases "length feat_names") simp_all
  have "length (slice_to imps (int (length feat_names) - 1)) = min m (length imps)"
    unfolding slice_to_take[OF pos] by (simp add: m)
  then show ?thesis
    unfolding m by (simp add: min_def)
qed

lemma sample_fitted_importances:
  "feature_importances (random_forest sample_fitted) = Some sample_importances"
  by (simp add: sample_fitted_def fitted_with_def)

lemma sample_text_sum:
  "py_sum [Dyadic 3 (-5), Dyadic 1 (-3), Dyadic 3 (-5), Dyadic 1 (-4),
      Dyadic 1 (-6), Dyadic 1 (-6), Dyadic 1 (-6), Dyadic 1 (-6), Dyadic 0 0] = Dyadic 28 (-6)"
  by code_simp

lemma sample_plot:
  "plot_feature_importance sample_fitted (snd (get_inference_pipeline sample_config 10)) = Inr sample_chart"
proof -
  have n: "int (length (snd (get_inference_pipeline sample_config 10))) - 1 = 10"
    and n': "length (snd (get_inference_pipeline sample_config 10)) = 11"
    and ne: "snd (get_inference_pipeline sample_config 10) \<noteq> []"
    unfolding processed_features_eq by simp_all
  have t: "slice_to sample_importances 10 =
      [Dyadic 1 (-3),
       Dyadic 1 (-6), Dyadic 1 (-6), Dyadic 1 (-5), Dyadic 1 (-5), Dyadic 1 (-5),
       Dyadic 1 (-4), Dyadic 3 (-5), Dyadic 3 (-5), Dyadic 1 (-4)]"
    by (simp add: slice_to_def sample_importances_def)
  have d: "py_sum (slice_from sample_importances 10) = Dyadic 28 (-6)"
    using sample_text_sum by (simp add: slice_from_def sample_importances_def)
  have l: "Suc (length (slice_to sample_importances 10)) = 11"
    by (simp add: t)
  have "plot_feature_importance sample_fitted (snd (get_inference_pipeline sample_config 10)) =
    Inr \<lparr>bar_positions = [0..<11],
         bar_heights = slice_to sample_importances 10 @ [py_sum (slice_from sample_importances 10)],
         xticks = [0..<11],
         xticklabels = snd (get_inference_pipeline sample_config 10),
         rotation = 90\<rparr>"
    unfolding plot_fitted[OF sample_fitted_importances] n unfolding l unfolding n' by simp
  then show ?thesis
    unfolding t d processed_features_eq sample_chart_def by (simp del: upt_Suc)
qed

lemma sample_long_plot:
  "plot_feature_importance sample_fitted sample_long_names = Inl ValueError"
proof -
  have n: "length sample_long_names = 22"
    unfolding sample_long_names_def processed_features_eq by simp
  have ne: "sample_long_names \<noteq> []"
    using n by auto
  have "\<not> length sample_long_names \<le> length sample_importances + 1"
    by (simp add: n sample_importances_def)
  then have "length sample_long_names
      \<noteq> Suc (length (slice_to sample_importances (int (length sample_long_names) - 1)))"
    using ticks_match[OF ne, of sample_importances] by blast
  then show ?thesis
    using ne by (simp only: plot_fitted[OF sample_fitted_importances]) simp
qed

text \<open>
  C1, as the program behaves. For every fitted pipeline and feature-name list, every
  chart that \<open>plot_feature_importance\<close> returns has exactly N labels on its x-axis, where
  N is the number of names in the list: the labels are the names, in their order, turned
  by 90 degrees, and when the list is not empty the chart has one bar and one tick per
  name. It returns a chart exactly when the list is empty or the regressor has at least
  one importance per name but the last; otherwise the labels are refused with
  \<open>ValueError\<close>. The list that \<open>go\<close> passes is \<open>processed_features\<close>: the eleven column
  names of the router in its order, not five group names.
\<close>

theorem plot_feature_importance_labels:
  assumes "feature_importances (random_forest pipe) = Some imps"
  shows "(\<forall>chart. plot_feature_importance pipe feat_names = Inr chart \<longrightarrow>
          xticklabels chart = feat_names
        \<and> length (xticklabels chart) = length feat_names
        \<and> rotation chart = 90
        \<and> xticks chart = bar_positions chart
        \<and> length (bar_positions chart) = length (bar_heights chart)
        \<and> (feat_names \<noteq> [] \<longrightarrow>
              length (bar_heights chart) = length feat_names
            \<and> xticks chart = [0..<length feat_names]))
    \<and> ((\<exists>chart. plot_feature_importance pipe feat_names = Inr chart)
         \<longleftrightarrow> (feat_names = [] \<or> length feat_names \<le> length imps + 1))
    \<and> (feat_names \<noteq> [] \<and> length imps + 1 < length feat_names \<longrightarrow>
         plot_feature_importance pipe feat_names = Inl ValueError)
    \<and> snd (get_inference_pipeline cfg k) =
         [''room_type'', ''neighbourhood_group'', ''minimum_nights'', ''number_of_reviews'',
          ''reviews_per_month'', ''calculated_host_listings_count'', ''availability_365'',
          ''longitude'', ''latitude'', ''last_review'', ''name'']
    \<and> length (snd (get_inference_pipeline cfg k)) = 11"
proof -
  let ?n = "length feat_names"
  let ?t = "Suc (length (slice_to imps (int ?n - 1)))"
  let ?chart = "\<lparr>bar_positions = [0..<?t],
         bar_heights = slice_to imps (int ?n - 1) @ [py_sum (slice_from imps (int ?n - 1))],
         xticks = [0..<?t],
         xticklabels = feat_names,
         rotation = 90\<rparr>"
  note run = plot_fitted[OF assms, of feat_names]
  have a: "xticklabels chart = feat_names
        \<and> length (xticklabels chart) = length feat_names
        \<and> rotation chart = 90
        \<and> xticks chart = bar_positions chart
        \<and> length (bar_positions chart) = length (bar_heights chart)
        \<and> (feat_names \<noteq> [] \<longrightarrow>
              length (bar_heights chart) = length feat_names
            \<and> xticks chart = [0..<length feat_names])"
    if r: "plot_feature_importance pipe feat_names = Inr chart" for chart
  proof -
    have c: "chart = ?chart" and m: "feat_names \<noteq> [] \<longrightarrow> ?n = ?t"
      using r unfolding run by (auto split: if_splits)
    show ?thesis
      unfolding c using m by simp
  qed
  have b: "(\<exists>chart. plot_feature_importance pipe feat_names = Inr chart)
         \<longleftrightarrow> (feat_names = [] \<or> ?n \<le> length imps + 1)"
  proof (cases "feat_names = []")
    case True
    then show ?thesis unfolding run by simp
  next
    case False
    show ?thesis
      unfolding run using False ticks_match[OF False, of imps] by auto
  qed
  have c: "feat_names \<noteq> [] \<and> length imps + 1 < ?n \<longrightarrow>
         plot_feature_importance pipe feat_names = Inl ValueError"
  proof
    assume h: "feat_names \<noteq> [] \<and> length imps + 1 < ?n"
    then have "?n \<noteq> ?t"
      using ticks_match[of feat_names imps] by auto
    with h show "plot_feature_importance pipe feat_names = Inl ValueError"
      unfolding run by simp
  qed
  have names: "length (snd (get_inference_pipeline cfg k)) = 11"
    unfolding processed_features_eq by simp
  show ?thesis
    using a b c names processed_features_eq[of cfg k] by blast
qed

theorem plot_feature_importance_labels_witness:
  "feature_importances (random_forest sample_fitted) = Some sample_importances
   \<and> plot_feature_importance sample_fitted (snd (get_inference_pipeline sample_config 10))
       = Inr sample_chart
   \<and> snd (get_inference_pipeline sample_config 10) \<noteq> []
   \<and> length (snd (get_inference_pipeline sample_config 10)) \<le> length sample_importances + 1
   \<and> xticklabels sample_chart = snd (get_inference_pipeline sample_config 10)
   \<and> length (xticklabels sample_chart) = 11
   \<and> length (bar_heights sample_chart) = 11
   \<and> rotation sample_chart = 90
   \<and> sample_long_names \<noteq> []
   \<and> length sample_importances + 1 < length sample_long_names
   \<and> plot_feature_importance sample_fitted sample_long_names = Inl ValueError"
proof -
  have ne: "snd (get_inference_pipeline sample_config 10) \<noteq> []"
    and n: "length (snd (get_inference_pipeline sample_config 10)) = 11"
    unfolding processed_features_eq by simp_all
  have le: "length (snd (get_inference_pipeline sample_config 10)) \<le> length sample_importances + 1"
    by (simp add: n sample_importances_def)
  note t = plot_feature_importance_labels[OF sample_fitted_importances,
      of "snd (get_inference_pipeline sample_config 10)" sample_config 10]
  have c: "xticklabels sample_chart = snd (get_inference_pipeline sample_config 10)
      \<and> length (xticklabels sample_chart) = length (snd (get_inference_pipeline sample_config 10))
      \<and> rotation sample_chart = 90
      \<and> length (bar_heights sample_chart) = length (snd (get_inference_pipeline sample_config 10))"
    using t sample_plot ne by blast
  have ne': "sample_long_names \<noteq> []"
    unfolding sample_long_names_def processed_features_eq by simp
  have lt: "length sample_importances + 1 < length sample_long_names"
    unfolding sample_long_names_def processed_features_eq by (simp add: sample_importances_def)
  have v: "plot_feature_importance sample_fitted sample_long_names = Inl ValueError"
    using plot_feature_importance_labels[OF sample_fitted_importances, of sample_long_names] ne' lt
    by blast
  show ?thesis
    using sample_fitted_importances sample_plot ne le c n ne' lt v by simp
qed

text \<open>
  The claim C1 as it is written fails on the list that the training run passes: the
  chart has eleven labels, and they are not the five group names. It also fails on a
  list with more names than the regressor has importances and one: no chart is made.
\<close>

theorem plot_feature_importance_five_labels_counterexample:
  "plot_feature_importance sample_fitted (snd (get_inference_pipeline sample_config 10)) = Inr sample_chart
   \<and> length (xticklabels sample_chart) = 11
   \<and> length (xticklabels sample_chart) \<noteq> length group_names
   \<and> length (bar_heights sample_chart) \<noteq> length group_names
   \<and> xticklabels sample_chart \<noteq> group_names
   \<and> plot_feature_importance sample_fitted sample_long_names = Inl ValueError"
  using sample_plot sample_long_plot by (simp add: sample_chart_def group_names_def)








end
